theory Spec2Isabelle
  imports Complex_Main "HOL-Library.Log_Nat"
begin

section \<open>JavaScript values\<close>

text \<open>
  Both fragments of the repository (the static XY chart and the \<open>Aggregation\<close> clause of
  the query builder) work on plain JavaScript data. A value is one of the following.
  A finite number is kept as the rational it denotes; an object is the list of its own
  properties, a later binding of a key replacing the earlier one.
\<close>

datatype jsval =
    Undefined
  | Null
  | JBool bool
  | JNum rat
  | JStr string
  | JArr "jsval list"
  | JObj "(string \<times> jsval) list"

text \<open>Truthiness, as \<open>if (v)\<close>, \<open>v || w\<close> and \<open>v && w\<close> test it.\<close>

fun truthy :: "jsval \<Rightarrow> bool" where
  "truthy Undefined = False"
| "truthy Null = False"
| "truthy (JBool b) = b"
| "truthy (JNum n) = (n \<noteq> 0)"
| "truthy (JStr s) = (s \<noteq> [])"
| "truthy (JArr xs) = True"
| "truthy (JObj kvs) = True"

text \<open>\<open>xs[i]\<close> on an array: \<open>undefined\<close> beyond the end.\<close>

definition item :: "jsval list \<Rightarrow> nat \<Rightarrow> jsval" where
  "item xs i = (if i < length xs then xs ! i else Undefined)"

text \<open>
  \<open>v[k]\<close> for a string key that is no built-in property name, on a value that is neither
  \<open>null\<close> nor \<open>undefined\<close>: the bound value on an object, \<open>undefined\<close> otherwise.
\<close>

fun getProp :: "jsval \<Rightarrow> string \<Rightarrow> jsval" where
  "getProp (JObj kvs) k = (case map_of kvs k of Some v \<Rightarrow> v | None \<Rightarrow> Undefined)"
| "getProp v k = Undefined"

datatype error = TypeError | InvalidLayoutError

text \<open>
  \<open>TypeError\<close> is what the JavaScript runtime raises when a value that is not a function is
  called or a value that is not iterable is spread. \<open>InvalidLayoutError\<close> is the error the
  specification names; no statement of the source raises it.
\<close>

section \<open>The aggregation clause\<close>

text \<open>
  An \<open>Aggregation\<close> is an MBQL array clause: \<open>["count"]\<close>, \<open>["sum", field]\<close>,
  \<open>["metric", id]\<close>, or \<open>["aggregation-options", clause, options]\<close>. The class
  \<open>MBQLClause\<close> it extends, the module \<open>metabase/lib/query_aggregation\<close> and the metadata
  object graph are not part of the source at hand; they are the parameters below.
\<close>

type_synonym clause = "jsval list"

record query_env =
  isStandardA :: "clause \<Rightarrow> bool"         \<comment> \<open>\<open>A_DEPRECATED.isStandard\<close>\<close>
  isCustomA :: "clause \<Rightarrow> bool"           \<comment> \<open>\<open>A_DEPRECATED.isCustom\<close>\<close>
  metricAggregation :: "jsval \<Rightarrow> clause option"
    \<comment> \<open>\<open>metadata().metric(id)\<close> followed by \<open>.aggregation()\<close>; \<open>None\<close> when no metric is found\<close>

definition hasOptions :: "clause \<Rightarrow> bool" where
  "hasOptions c = (item c 0 = JStr ''aggregation-options'')"

definition options :: "clause \<Rightarrow> jsval" where
  "options c =
     (if hasOptions c then (if truthy (item c 2) then item c 2 else JObj []) else JObj [])"

text \<open>
  \<open>new Aggregation(this[1], ...)\<close>: the constructor of an array clause spreads its first
  argument into the new array, which fails on a value that is not iterable.
\<close>

definition aggregation :: "clause \<Rightarrow> error + clause" where
  "aggregation c =
     (if hasOptions c then (case item c 1 of JArr ys \<Rightarrow> Inr ys | _ \<Rightarrow> Inl TypeError)
      else Inr c)"

definition isMetric :: "clause \<Rightarrow> bool" where
  "isMetric c = (item c 0 = JStr ''metric'')"

definition metricId :: "clause \<Rightarrow> jsval" where
  "metricId c = (if isMetric c then item c 1 else Undefined)"

definition metric :: "query_env \<Rightarrow> clause \<Rightarrow> clause option" where
  "metric E c = (if isMetric c then metricAggregation E (metricId c) else None)"

text \<open>
  \<open>short\<close> and \<open>columnName\<close> delegate to the aggregation of the metric a clause refers to,
  which may refer to a metric again. The delegation is bounded by a counter: \<open>None\<close> says
  that the chain of metrics was longer than the counter, every other call returns
  \<open>Some\<close> result, a thrown error or a value.
\<close>

type_synonym outcome = "(error + jsval) option"

definition short_body :: "query_env \<Rightarrow> (clause \<Rightarrow> outcome) \<Rightarrow> clause \<Rightarrow> outcome" where
  "short_body E delegate c =
     (case aggregation c of
        Inl e \<Rightarrow> Some (Inl e)
      | Inr a \<Rightarrow>
          if isMetric a then
            (case metric E a of
               Some m \<Rightarrow> delegate m
             | None \<Rightarrow> Some (Inr Undefined))
          else if isStandardA E a then Some (Inr (item a 0))
          else Some (Inr Undefined))"

fun short :: "query_env \<Rightarrow> nat \<Rightarrow> clause \<Rightarrow> outcome" where
  "short E 0 c = short_body E (\<lambda>m. None) c"
| "short E (Suc n) c = short_body E (short E n) c"

definition columnName_body ::
  "query_env \<Rightarrow> outcome \<Rightarrow> (clause \<Rightarrow> outcome) \<Rightarrow> clause \<Rightarrow> outcome" where
  "columnName_body E this_short delegate c =
     (let displayName = getProp (options c) ''display-name'' in
      if truthy displayName then Some (Inr displayName)
      else
        (case aggregation c of
           Inl e \<Rightarrow> Some (Inl e)
         | Inr a \<Rightarrow>
             if isCustomA E a then Some (Inr (JStr ''expression''))
             else if isMetric a then
               (case metric E a of
                  Some m \<Rightarrow> delegate m
                | None \<Rightarrow> Some (Inr Null))
             else if isStandardA E a then
               (case this_short of
                  None \<Rightarrow> None
                | Some (Inl e) \<Rightarrow> Some (Inl e)
                | Some (Inr s) \<Rightarrow>
                    if truthy s then
                      Some (Inr (if s = JStr ''distinct'' then JStr ''count'' else s))
                    else Some (Inr Null))
             else Some (Inr Null)))"

fun columnName :: "query_env \<Rightarrow> nat \<Rightarrow> clause \<Rightarrow> outcome" where
  "columnName E 0 c = columnName_body E (short E 0 c) (\<lambda>m. None) c"
| "columnName E (Suc n) c = columnName_body E (short E (Suc n) c) (columnName E n) c"

datatype base_type = Integer | Float

text \<open>\<open>INTEGER_AGGREGATIONS.has(v)\<close>: the set holds three strings.\<close>

definition INTEGER_AGGREGATIONS :: "jsval list" where
  "INTEGER_AGGREGATIONS = [JStr ''count'', JStr ''cum-count'', JStr ''distinct'']"

definition baseType :: "query_env \<Rightarrow> nat \<Rightarrow> clause \<Rightarrow> (error + base_type) option" where
  "baseType E n c =
     (case short E n c of
        None \<Rightarrow> None
      | Some (Inl e) \<Rightarrow> Some (Inl e)
      | Some (Inr s) \<Rightarrow> Some (Inr (if List.member INTEGER_AGGREGATIONS s then Integer else Float)))"

section \<open>Numbers\<close>

text \<open>
  A JavaScript number is an IEEE 754 double. A finite double is kept as the rational it
  denotes, and every arithmetic operation rounds its exact result to the nearest double,
  ties to even: \<open>fl\<close>, with 53 significant bits and gradual underflow below
  \<open>2\<^sup>-\<^sup>1\<^sup>0\<^sup>2\<^sup>2\<close>. Overflow to an infinity is not modelled (the magnitudes of a chart layout
  stay far below \<open>2\<^sup>1\<^sup>0\<^sup>2\<^sup>4\<close>), and the two zeros are not told apart.
\<close>

type_synonym number = rat

definition round_half_even :: "rat \<Rightarrow> int" where
  "round_half_even x =
     (let f = \<lfloor>x\<rfloor>; d = x - of_int f in
      if d < 1 / 2 then f else if 1 / 2 < d then f + 1 else if even f then f else f + 1)"

text \<open>The binary exponent \<open>\<lfloor>log\<^sub>2 \<bar>x\<bar>\<rfloor>\<close> of a number other than zero.\<close>

definition exponent :: "rat \<Rightarrow> int" where
  "exponent x =
     (let a = \<bar>x\<bar> in if 1 \<le> a then bitlen \<lfloor>a\<rfloor> - 1 else - bitlen (\<lceil>1 / a\<rceil> - 1))"

definition ulp :: "rat \<Rightarrow> rat" where
  "ulp x = 2 powi (max (exponent x) (- 1022) - 52)"

definition fl :: "rat \<Rightarrow> rat" where
  "fl x = (if x = 0 then 0 else of_int (round_half_even (x / ulp x)) * ulp x)"

definition js_add :: "number \<Rightarrow> number \<Rightarrow> number" where
  "js_add a b = fl (a + b)"

definition js_mul :: "number \<Rightarrow> number \<Rightarrow> number" where
  "js_mul a b = fl (a * b)"

text \<open>
  Where a computation of the source can leave the finite numbers, its result is a
  \<open>jsnumber\<close>: \<open>0 / 0\<close> is \<open>NaN\<close>, a comparison with \<open>NaN\<close> is false.
\<close>

datatype jsnumber = Finite rat | NaN | PosInfinity | NegInfinity

definition js_div :: "number \<Rightarrow> number \<Rightarrow> jsnumber" where
  "js_div a b =
     (if b = 0 then (if a = 0 then NaN else if 0 < a then PosInfinity else NegInfinity)
      else Finite (fl (a / b)))"

fun js_sub :: "jsnumber \<Rightarrow> number \<Rightarrow> jsnumber" where
  "js_sub (Finite a) b = Finite (fl (a - b))"
| "js_sub NaN b = NaN"
| "js_sub PosInfinity b = PosInfinity"
| "js_sub NegInfinity b = NegInfinity"

fun js_less :: "jsnumber \<Rightarrow> jsnumber \<Rightarrow> bool" where
  "js_less (Finite a) (Finite b) = (a < b)"
| "js_less NaN y = False"
| "js_less x NaN = False"
| "js_less NegInfinity y = (y \<noteq> NegInfinity)"
| "js_less x PosInfinity = (x \<noteq> PosInfinity)"
| "js_less PosInfinity y = False"
| "js_less x NegInfinity = False"

section \<open>The static XY chart: data\<close>

text \<open>
  The module \<open>XYChart/types\<close> is not part of the source at hand; the records follow the
  data model of the specification (section 3) and the fields \<open>XYChart\<close> reads.
\<close>

datatype series_type = Line | Area | Bar

datatype y_axis_position = YLeft | YRight

datatype x_axis_type = Ordinal | Timeseries | Linear

datatype stacking = StackingNone | StackingStack

datatype xvalue = XStr string | XNum rat

type_synonym datum = "xvalue \<times> number"

record series =
  s_name :: string
  s_color :: string
  s_axis :: y_axis_position
  s_type :: series_type
  s_data :: "datum list"

text \<open>
  A hydrated series carries what the normaliser derives: for a stacked chart, one triple
  (x, baseline, value) for each point; the point is plotted at baseline + value.
\<close>

record hydrated_series = series +
  s_stacked :: "(xvalue \<times> number \<times> number) list option"

text \<open>
  An optional configuration object, as \<open>maybeAssoc\<close> receives it, is \<open>null\<close>, \<open>undefined\<close> or
  an object. The format options of the chart are read by their properties only: such an
  object is the map from the keys of its own properties to their values, and \<open>c[k]\<close> is
  \<open>undefined\<close> for a key that the object does not have.
\<close>

type_synonym obj = "string \<rightharpoonup> jsval"

definition getOwn :: "obj \<Rightarrow> string \<Rightarrow> jsval" where
  "getOwn c k = (case c k of Some v \<Rightarrow> v | None \<Rightarrow> Undefined)"

datatype 'a nullable = IsNull | IsUndefined | Defined 'a

record x_settings =
  x_type :: x_axis_type
  x_format :: jsval
  x_tick_display :: "string option"

record y_settings =
  y_type :: string
  y_format :: "obj nullable"

record goal =
  goal_value :: number
  goal_label :: string

record axis_labels =
  label_left :: "string option"
  label_right :: "string option"
  label_bottom :: "string option"

record chart_settings =
  settings_x :: x_settings
  settings_y :: y_settings
  stacking :: stacking
  goal :: "goal option"
  show_values :: bool
  labels :: axis_labels

record value_style =
  vs_color :: string
  vs_fontSize :: number
  vs_fontWeight :: number

record chart_style =
  fontFamily :: string
  axes_color :: string
  axes_ticks_color :: string
  axes_ticks_fontSize :: number
  axes_labels_color :: string
  axes_labels_fontSize :: number
  axes_labels_fontWeight :: number
  legend_fontSize :: number
  legend_lineHeight :: number
  style_value :: "value_style option"
  goalColor :: string

record xychart_props =
  p_width :: number
  p_height :: number
  p_series :: "series list"
  p_settings :: chart_settings
  p_style :: chart_style

record text_props =
  tp_fontWeight :: "number option"
  tp_fontSize :: "number option"
  tp_fontFamily :: "string option"
  tp_fill :: "string option"
  tp_textAnchor :: "string option"
  tp_letterSpacing :: "number option"

subsection \<open>What the helper module returns\<close>

type_synonym domain = "number \<times> number"

type_synonym yscale = "number \<Rightarrow> number"

record y_domains =
  domain_left :: "domain option"
  domain_right :: "domain option"

record y_tick_widths =
  ytw_left :: number
  ytw_right :: number

record x_ticks_dimensions =
  xtd_height :: number
  xtd_width :: number
  xtd_maxTextWidth :: number

record margin =
  m_top :: number
  m_bottom :: number
  m_left :: number
  m_right :: number

record bounds =
  xMin :: number
  xMax :: number
  yMin :: number
  innerHeight :: number
  innerWidth :: number

record x_scale =
  xs_scale :: "xvalue \<Rightarrow> number"
  xs_bandwidth :: "number option"
  xs_lineAccessor :: "datum \<Rightarrow> number"
  xs_barAccessor :: "(datum \<Rightarrow> number) option"

record y_scales =
  yScaleLeft :: "yscale option"
  yScaleRight :: "yscale option"

record legend_columns =
  leftColumn :: "hydrated_series list"
  rightColumn :: "hydrated_series list"

text \<open>
  \<open>XYChart/utils\<close>, \<open>XYChart/constants\<close> and \<open>static-viz/lib/numbers\<close> are imported by
  \<open>XYChart.tsx\<close> and are not part of the source at hand. \<open>XYChart\<close> is modelled over any
  such helpers: they are the fields of this record, taken as functions that return.
\<close>

record utils =
  CHART_PADDING :: number
  LABEL_PADDING :: number
  formatNumber :: "number \<Rightarrow> obj nullable \<Rightarrow> string"
  sortSeries :: "series list \<Rightarrow> x_axis_type \<Rightarrow> hydrated_series list"
  calculateStackedItems :: "hydrated_series list \<Rightarrow> hydrated_series list"
  calculateYDomains :: "hydrated_series list \<Rightarrow> number option \<Rightarrow> y_domains"
  getYTickWidths ::
    "obj nullable \<Rightarrow> number \<Rightarrow> domain option \<Rightarrow> domain option \<Rightarrow> y_tick_widths"
  getXTicksDimensions :: "hydrated_series list \<Rightarrow> x_settings \<Rightarrow> number \<Rightarrow> x_ticks_dimensions"
  calculateMargin ::
    "number \<Rightarrow> number \<Rightarrow> number \<Rightarrow> number \<Rightarrow> axis_labels \<Rightarrow> number \<Rightarrow> bool \<Rightarrow> margin"
  calculateBounds :: "margin \<Rightarrow> number \<Rightarrow> number \<Rightarrow> bounds"
  createXScale :: "hydrated_series list \<Rightarrow> number \<times> number \<Rightarrow> x_axis_type \<Rightarrow> x_scale"
  createYScales ::
    "number \<times> number \<Rightarrow> string \<Rightarrow> domain option \<Rightarrow> domain option \<Rightarrow> y_scales"
  getLegendColumns :: "hydrated_series list \<Rightarrow> legend_columns"
  getXTickWidthLimit :: "x_settings \<Rightarrow> number \<Rightarrow> number option \<Rightarrow> number"
  getValueStep ::
    "hydrated_series list \<Rightarrow> (number \<Rightarrow> string) \<Rightarrow> text_props \<Rightarrow> number \<Rightarrow> number"
  formatXTick :: "xvalue \<Rightarrow> x_axis_type \<Rightarrow> jsval \<Rightarrow> string"
  getXTickProps :: "jsval \<Rightarrow> number \<Rightarrow> number \<Rightarrow> bool \<Rightarrow> jsval"

subsection \<open>The scene\<close>

text \<open>
  What \<open>XYChart\<close> returns: the element tree, one record for each element with the
  properties the source passes. An element under a guard \<open>c && <E/>\<close> is optional.
\<close>

record grid_rows =
  gr_scale :: yscale
  gr_width :: number
  gr_strokeDasharray :: string

record shape_props =
  sp_series :: "hydrated_series list"
  sp_yScaleLeft :: "yscale option"
  sp_yScaleRight :: "yscale option"
  sp_xAccessor :: "datum \<Rightarrow> number"
  sp_showValues :: bool
  sp_valueFormatter :: "number \<Rightarrow> string"
  sp_valueProps :: text_props
  sp_valueStep :: number

record bar_series = shape_props +
  bar_bandwidth :: number

record area_series = shape_props +
  areStacked :: bool

record goal_line =
  gl_label :: string
  gl_x1 :: number
  gl_x2 :: number
  gl_y :: number
  gl_color :: string

record plot_group =
  g_top :: number
  g_left :: number
  g_gridRows :: "grid_rows option"
  g_barSeries :: "bar_series option"
  g_areaSeries :: area_series
  g_lineSeries :: shape_props
  g_goalLine :: "goal_line option"

record y_axis =
  ya_hideTicks :: bool
  ya_hideAxisLine :: bool
  ya_label :: "string option"
  ya_labelOffset :: number
  ya_top :: number
  ya_left :: number
  ya_scale :: yscale
  ya_stroke :: string
  ya_tickStroke :: string
  ya_labelProps :: text_props
  ya_tickFormat :: "number \<Rightarrow> string"
  ya_tickLabelProps :: text_props

record bottom_axis =
  ba_scale :: "xvalue \<Rightarrow> number"
  ba_label :: "string option"
  ba_top :: number
  ba_left :: number
  ba_numTicks :: jsnumber
  ba_labelOffset :: "number option"
  ba_stroke :: string
  ba_tickStroke :: string
  ba_hideTicks :: bool
  ba_labelProps :: text_props
  ba_tickFormat :: "xvalue \<Rightarrow> string"
  ba_tickComponent :: "jsval \<Rightarrow> jsval option"
  ba_tickLabelProps :: text_props

record legend =
  lg_leftColumn :: "hydrated_series list"
  lg_rightColumn :: "hydrated_series list"
  lg_padding :: number
  lg_top :: number
  lg_width :: number
  lg_lineHeight :: number
  lg_fontSize :: number

record scene =
  svg_width :: number
  svg_height :: number
  svg_group :: plot_group
  svg_axisLeft :: "y_axis option"
  svg_axisRight :: "y_axis option"
  svg_axisBottom :: bottom_axis
  svg_legend :: legend
section \<open>The static XY chart: \<open>XYChart\<close>\<close>

subsection \<open>Objects in the store, \<open>assoc\<close> and \<open>maybeAssoc\<close>\<close>

text \<open>
  Whether \<open>maybeAssoc\<close> returns a copy and whether it changes its argument are questions
  about the identity of objects. An object lives in the store at an address; it has its
  own properties and the flag that \<open>Object.freeze\<close> sets. The store is the list of the
  objects created so far, the address of an object is its index, and a new object is put
  at the end. A reference to a collection is \<open>null\<close>, \<open>undefined\<close> or the address of an
  object of the store.

  Collections are plain objects with data properties of their own. Arrays, accessor
  properties and the properties that an object inherits from \<open>Object.prototype\<close>
  (\<open>__proto__\<close> among them) are outside the model. The value given to \<open>assoc\<close> is a
  primitive value, as in the one call of the source, where it is the boolean \<open>compact\<close>;
  a finite number is the rational it denotes.
\<close>

type_synonym addr = nat

record jsobject =
  properties :: obj
  isFrozen :: bool

type_synonym store = "jsobject list"

datatype primitive = PUndefined | PNull | PBool bool | PNum rat | PStr string

fun of_primitive :: "primitive \<Rightarrow> jsval" where
  "of_primitive PUndefined = Undefined"
| "of_primitive PNull = Null"
| "of_primitive (PBool b) = JBool b"
| "of_primitive (PNum n) = JNum n"
| "of_primitive (PStr s) = JStr s"

text \<open>\<open>coll[key]\<close> for the object at the address \<open>coll\<close>.\<close>

definition getIn :: "store \<Rightarrow> addr \<Rightarrow> string \<Rightarrow> jsval" where
  "getIn h coll key = getOwn (properties (h ! coll)) key"

text \<open>
  \<open>assoc\<close> is imported from the library icepick, which is not part of the repository.
  The library's function first tests \<open>coll[key] === value\<close> and, when that holds, returns
  the collection itself after \<open>Object.freeze\<close> on it. Otherwise it clones the collection
  (the own properties are copied into a new object), sets the key to the value in the
  clone, and returns the clone after \<open>Object.freeze\<close> on it. When the library is loaded
  with \<open>NODE_ENV\<close> set to \<open>production\<close> it freezes nothing; \<open>production\<close> below says whether
  that is so. On primitive values \<open>===\<close> is equality, a number being finite.
\<close>

definition freeze :: "bool \<Rightarrow> store \<Rightarrow> addr \<Rightarrow> store" where
  "freeze production h coll =
     (if production then h else h[coll := (h ! coll)\<lparr>isFrozen := True\<rparr>])"

definition assoc :: "bool \<Rightarrow> store \<Rightarrow> addr \<Rightarrow> string \<Rightarrow> primitive \<Rightarrow> addr \<times> store" where
  "assoc production h coll key v =
     (if getIn h coll key = of_primitive v then (coll, freeze production h coll)
      else
        (let newObj = \<lparr> properties = (properties (h ! coll))(key \<mapsto> of_primitive v),
                        isFrozen = False \<rparr>
         in (length h, freeze production (h @ [newObj]) (length h))))"

text \<open>
  \<open>maybeAssoc\<close>, lines 317 to 323 of the source: \<open>collection == null\<close> holds of \<open>null\<close> and of
  \<open>undefined\<close>, and the collection is then returned as it is; \<open>assoc\<close> is not called.
\<close>

definition maybeAssoc ::
  "bool \<Rightarrow> store \<Rightarrow> addr nullable \<Rightarrow> string \<Rightarrow> primitive \<Rightarrow> addr nullable \<times> store" where
  "maybeAssoc production h collection key v =
     (case collection of
        Defined coll \<Rightarrow>
          (case assoc production h coll key v of (r, h') \<Rightarrow> (Defined r, h'))
      | _ \<Rightarrow> (collection, h))"

text \<open>
  \<open>XYChart\<close> hands what \<open>maybeAssoc\<close> returns to \<open>formatNumber\<close> and to nothing else, and the
  formatter is a function of the value and of the format options (section 6 of the
  specification). The chart is therefore modelled on the properties of the format
  object: \<open>maybeAssocProps\<close> runs \<open>maybeAssoc\<close> on a store that holds the format object alone
  and reads the properties of the result.
\<close>

definition maybeAssocProps :: "obj nullable \<Rightarrow> string \<Rightarrow> primitive \<Rightarrow> obj nullable" where
  "maybeAssocProps format key v =
     (let h = (case format of
                 Defined c \<Rightarrow> [\<lparr> properties = c, isFrozen = False \<rparr>]
               | _ \<Rightarrow> [])
      in case maybeAssoc False h (map_nullable (\<lambda>c. 0) format) key v of
           (r, h') \<Rightarrow> map_nullable (\<lambda>a. properties (h' ! a)) r)"

subsection \<open>The body of \<open>XYChart\<close>\<close>

text \<open>The constants of the body of \<open>XYChart\<close>, in the order of the source.\<close>

definition series_of :: "utils \<Rightarrow> xychart_props \<Rightarrow> hydrated_series list" where
  "series_of U p =
     (let series = sortSeries U (p_series p) (x_type (settings_x (p_settings p))) in
      if stacking (p_settings p) = StackingStack then calculateStackedItems U series
      else series)"

definition yDomains_of :: "utils \<Rightarrow> xychart_props \<Rightarrow> y_domains" where
  "yDomains_of U p =
     calculateYDomains U (series_of U p) (map_option goal_value (goal (p_settings p)))"

definition yTickWidths_of :: "utils \<Rightarrow> xychart_props \<Rightarrow> y_tick_widths" where
  "yTickWidths_of U p =
     getYTickWidths U (y_format (settings_y (p_settings p))) (axes_ticks_fontSize (p_style p))
       (domain_left (yDomains_of U p)) (domain_right (yDomains_of U p))"

definition xTicksDimensions_of :: "utils \<Rightarrow> xychart_props \<Rightarrow> x_ticks_dimensions" where
  "xTicksDimensions_of U p =
     getXTicksDimensions U (series_of U p) (settings_x (p_settings p)) (axes_ticks_fontSize (p_style p))"

definition yLabelOffsetLeft_of :: "utils \<Rightarrow> xychart_props \<Rightarrow> number" where
  "yLabelOffsetLeft_of U p = js_add (ytw_left (yTickWidths_of U p)) (LABEL_PADDING U)"

definition yLabelOffsetRight_of :: "utils \<Rightarrow> xychart_props \<Rightarrow> number" where
  "yLabelOffsetRight_of U p = LABEL_PADDING U"

definition margin_of :: "utils \<Rightarrow> xychart_props \<Rightarrow> margin" where
  "margin_of U p =
     calculateMargin U (ytw_left (yTickWidths_of U p)) (ytw_right (yTickWidths_of U p))
       (xtd_height (xTicksDimensions_of U p)) (xtd_width (xTicksDimensions_of U p))
       (labels (p_settings p)) (axes_ticks_fontSize (p_style p))
       (goal (p_settings p) \<noteq> None \<or> show_values (p_settings p))"

definition bounds_of :: "utils \<Rightarrow> xychart_props \<Rightarrow> bounds" where
  "bounds_of U p = calculateBounds U (margin_of U p) (p_width p) (p_height p)"

definition xScale_of :: "utils \<Rightarrow> xychart_props \<Rightarrow> x_scale" where
  "xScale_of U p =
     createXScale U (series_of U p) (0, innerWidth (bounds_of U p)) (x_type (settings_x (p_settings p)))"

definition yScales_of :: "utils \<Rightarrow> xychart_props \<Rightarrow> y_scales" where
  "yScales_of U p =
     createYScales U (innerHeight (bounds_of U p), 0) (y_type (settings_y (p_settings p)))
       (domain_left (yDomains_of U p)) (domain_right (yDomains_of U p))"

definition lines_of :: "utils \<Rightarrow> xychart_props \<Rightarrow> hydrated_series list" where
  "lines_of U p = filter (\<lambda>series. s_type series = Line) (series_of U p)"

definition areas_of :: "utils \<Rightarrow> xychart_props \<Rightarrow> hydrated_series list" where
  "areas_of U p = filter (\<lambda>series. s_type series = Area) (series_of U p)"

definition bars_of :: "utils \<Rightarrow> xychart_props \<Rightarrow> hydrated_series list" where
  "bars_of U p = filter (\<lambda>series. s_type series = Bar) (series_of U p)"

text \<open>\<open>yScaleLeft || yScaleRight\<close>: a scale is a function, hence truthy when present.\<close>

definition defaultYScale_of :: "utils \<Rightarrow> xychart_props \<Rightarrow> yscale option" where
  "defaultYScale_of U p =
     (case yScaleLeft (yScales_of U p) of
        Some l \<Rightarrow> Some l
      | None \<Rightarrow> yScaleRight (yScales_of U p))"

definition legendHeight_of :: "utils \<Rightarrow> xychart_props \<Rightarrow> number" where
  "legendHeight_of U p =
     js_mul
       (of_nat (max (length (leftColumn (getLegendColumns U (series_of U p))))
                    (length (rightColumn (getLegendColumns U (series_of U p))))))
       (legend_lineHeight (p_style p))"

definition xTickWidthLimit_of :: "utils \<Rightarrow> xychart_props \<Rightarrow> number" where
  "xTickWidthLimit_of U p =
     getXTickWidthLimit U (settings_x (p_settings p)) (xtd_maxTextWidth (xTicksDimensions_of U p))
       (xs_bandwidth (xScale_of U p))"

definition xTicksCount_of :: "xychart_props \<Rightarrow> jsnumber" where
  "xTicksCount_of p = (if x_type (settings_x (p_settings p)) = Ordinal then PosInfinity else Finite 4)"

definition labelProps_of :: "xychart_props \<Rightarrow> text_props" where
  "labelProps_of p =
     \<lparr> tp_fontWeight = Some (axes_labels_fontWeight (p_style p)),
       tp_fontSize = Some (axes_labels_fontSize (p_style p)),
       tp_fontFamily = Some (fontFamily (p_style p)),
       tp_fill = Some (axes_labels_color (p_style p)),
       tp_textAnchor = Some ''middle'',
       tp_letterSpacing = None \<rparr>"

definition tickProps_of :: "xychart_props \<Rightarrow> text_props" where
  "tickProps_of p =
     \<lparr> tp_fontWeight = None,
       tp_fontSize = Some (axes_ticks_fontSize (p_style p)),
       tp_fontFamily = Some (fontFamily (p_style p)),
       tp_fill = Some (axes_ticks_color (p_style p)),
       tp_textAnchor = Some ''end'',
       tp_letterSpacing = None \<rparr>"

definition valueProps_of :: "xychart_props \<Rightarrow> text_props" where
  "valueProps_of p =
     \<lparr> tp_fontWeight = map_option vs_fontWeight (style_value (p_style p)),
       tp_fontSize = map_option vs_fontSize (style_value (p_style p)),
       tp_fontFamily = Some (fontFamily (p_style p)),
       tp_fill = map_option vs_color (style_value (p_style p)),
       tp_textAnchor = None,
       tp_letterSpacing = Some (1 / 2) \<rparr>"

definition areXTicksRotated_of :: "xychart_props \<Rightarrow> bool" where
  "areXTicksRotated_of p = (x_tick_display (settings_x (p_settings p)) = Some ''rotate-45'')"

definition areXTicksHidden_of :: "xychart_props \<Rightarrow> bool" where
  "areXTicksHidden_of p = (x_tick_display (settings_x (p_settings p)) = Some ''hide'')"

definition xLabelOffset_of :: "xychart_props \<Rightarrow> number option" where
  "xLabelOffset_of p =
     (if areXTicksHidden_of p then Some (- axes_ticks_fontSize (p_style p)) else None)"

text \<open>
  \<open>getAvgLength\<close>: the lengths of the formatted Y values of all the points of all the
  series, summed by \<open>reduce\<close> and divided by their number; with no point, \<open>0 / 0\<close>.
\<close>

definition getAvgLength :: "utils \<Rightarrow> xychart_props \<Rightarrow> bool \<Rightarrow> jsnumber" where
  "getAvgLength U p isCompact =
     (let lengths =
        map (\<lambda>(_, yValue).
               length (formatNumber U yValue
                         (maybeAssocProps (y_format (settings_y (p_settings p))) ''compact'' (PBool isCompact))))
            (concat (map s_data (series_of U p)))
      in js_div (foldl (\<lambda>sum l. js_add sum (of_nat l)) 0 lengths) (of_nat (length lengths)))"

definition compact_of :: "utils \<Rightarrow> xychart_props \<Rightarrow> bool" where
  "compact_of U p = js_less (getAvgLength U p True) (js_sub (getAvgLength U p False) 3)"

definition valueFormatter_of :: "utils \<Rightarrow> xychart_props \<Rightarrow> number \<Rightarrow> string" where
  "valueFormatter_of U p v =
     formatNumber U v
       (maybeAssocProps (y_format (settings_y (p_settings p))) ''compact'' (PBool (compact_of U p)))"

definition barsValueStep_of :: "utils \<Rightarrow> xychart_props \<Rightarrow> number" where
  "barsValueStep_of U p =
     getValueStep U (bars_of U p) (valueFormatter_of U p) (valueProps_of p)
       (innerWidth (bounds_of U p))"

definition areasValueStep_of :: "utils \<Rightarrow> xychart_props \<Rightarrow> number" where
  "areasValueStep_of U p =
     getValueStep U (areas_of U p) (valueFormatter_of U p) (valueProps_of p)
       (innerWidth (bounds_of U p))"

definition linesValueStep_of :: "utils \<Rightarrow> xychart_props \<Rightarrow> number" where
  "linesValueStep_of U p =
     getValueStep U (lines_of U p) (valueFormatter_of U p) (valueProps_of p)
       (innerWidth (bounds_of U p))"

text \<open>The elements of the returned tree.\<close>

definition gridRows_of :: "utils \<Rightarrow> xychart_props \<Rightarrow> grid_rows option" where
  "gridRows_of U p =
     (case defaultYScale_of U p of
        None \<Rightarrow> None
      | Some scale \<Rightarrow>
          Some \<lparr> gr_scale = scale, gr_width = innerWidth (bounds_of U p),
                 gr_strokeDasharray = ''4'' \<rparr>)"

text \<open>
  \<open>xScale.barAccessor && xScale.bandwidth && <BarSeries/>\<close>: the bandwidth is a number,
  truthy when it is present and not zero.
\<close>

definition barSeries_of :: "utils \<Rightarrow> xychart_props \<Rightarrow> bar_series option" where
  "barSeries_of U p =
     (case xs_barAccessor (xScale_of U p) of
        None \<Rightarrow> None
      | Some barAccessor \<Rightarrow>
          (case xs_bandwidth (xScale_of U p) of
             None \<Rightarrow> None
           | Some bandwidth \<Rightarrow>
               if bandwidth = 0 then None
               else
                 Some \<lparr> sp_series = bars_of U p,
                        sp_yScaleLeft = yScaleLeft (yScales_of U p),
                        sp_yScaleRight = yScaleRight (yScales_of U p),
                        sp_xAccessor = barAccessor,
                        sp_showValues = show_values (p_settings p),
                        sp_valueFormatter = valueFormatter_of U p,
                        sp_valueProps = valueProps_of p,
                        sp_valueStep = barsValueStep_of U p,
                        bar_bandwidth = bandwidth \<rparr>))"

definition areaSeries_of :: "utils \<Rightarrow> xychart_props \<Rightarrow> area_series" where
  "areaSeries_of U p =
     \<lparr> sp_series = areas_of U p,
       sp_yScaleLeft = yScaleLeft (yScales_of U p),
       sp_yScaleRight = yScaleRight (yScales_of U p),
       sp_xAccessor = xs_lineAccessor (xScale_of U p),
       sp_showValues = show_values (p_settings p),
       sp_valueFormatter = valueFormatter_of U p,
       sp_valueProps = valueProps_of p,
       sp_valueStep = areasValueStep_of U p,
       areStacked = (stacking (p_settings p) = StackingStack) \<rparr>"

definition lineSeries_of :: "utils \<Rightarrow> xychart_props \<Rightarrow> shape_props" where
  "lineSeries_of U p =
     \<lparr> sp_series = lines_of U p,
       sp_yScaleLeft = yScaleLeft (yScales_of U p),
       sp_yScaleRight = yScaleRight (yScales_of U p),
       sp_xAccessor = xs_lineAccessor (xScale_of U p),
       sp_showValues = show_values (p_settings p),
       sp_valueFormatter = valueFormatter_of U p,
       sp_valueProps = valueProps_of p,
       sp_valueStep = linesValueStep_of U p \<rparr>"

text \<open>
  \<open>settings.goal && <GoalLine ... y={defaultYScale!(settings.goal.value)}/>\<close>: the
  assertion \<open>!\<close> is erased by the compiler, so that with a goal and no Y scale at all the
  call of \<open>undefined\<close> raises a \<open>TypeError\<close> while the tree is built.
\<close>

definition goalLine_of :: "utils \<Rightarrow> xychart_props \<Rightarrow> error + goal_line option" where
  "goalLine_of U p =
     (case goal (p_settings p) of
        None \<Rightarrow> Inr None
      | Some g \<Rightarrow>
          (case defaultYScale_of U p of
             None \<Rightarrow> Inl TypeError
           | Some scale \<Rightarrow>
               Inr (Some \<lparr> gl_label = goal_label g, gl_x1 = 0,
                            gl_x2 = innerWidth (bounds_of U p),
                            gl_y = scale (goal_value g),
                            gl_color = goalColor (p_style p) \<rparr>)))"

definition axisLeft_of :: "utils \<Rightarrow> xychart_props \<Rightarrow> y_axis option" where
  "axisLeft_of U p =
     (case yScaleLeft (yScales_of U p) of
        None \<Rightarrow> None
      | Some scale \<Rightarrow>
          Some \<lparr> ya_hideTicks = True, ya_hideAxisLine = True,
                 ya_label = label_left (labels (p_settings p)),
                 ya_labelOffset = yLabelOffsetLeft_of U p,
                 ya_top = m_top (margin_of U p),
                 ya_left = xMin (bounds_of U p),
                 ya_scale = scale,
                 ya_stroke = axes_color (p_style p),
                 ya_tickStroke = axes_color (p_style p),
                 ya_labelProps = labelProps_of p,
                 ya_tickFormat = (\<lambda>v. formatNumber U v (y_format (settings_y (p_settings p)))),
                 ya_tickLabelProps = tickProps_of p \<rparr>)"

definition axisRight_of :: "utils \<Rightarrow> xychart_props \<Rightarrow> y_axis option" where
  "axisRight_of U p =
     (case yScaleRight (yScales_of U p) of
        None \<Rightarrow> None
      | Some scale \<Rightarrow>
          Some \<lparr> ya_hideTicks = True, ya_hideAxisLine = True,
                 ya_label = label_right (labels (p_settings p)),
                 ya_labelOffset = yLabelOffsetRight_of U p,
                 ya_top = m_top (margin_of U p),
                 ya_left = js_add (xMax (bounds_of U p)) (ytw_right (yTickWidths_of U p)),
                 ya_scale = scale,
                 ya_stroke = axes_color (p_style p),
                 ya_tickStroke = axes_color (p_style p),
                 ya_labelProps = labelProps_of p,
                 ya_tickFormat = (\<lambda>v. formatNumber U v (y_format (settings_y (p_settings p)))),
                 ya_tickLabelProps = tickProps_of p \<rparr>)"

definition axisBottom_of :: "utils \<Rightarrow> xychart_props \<Rightarrow> bottom_axis" where
  "axisBottom_of U p =
     \<lparr> ba_scale = xs_scale (xScale_of U p),
       ba_label = (if areXTicksRotated_of p then None else label_bottom (labels (p_settings p))),
       ba_top = yMin (bounds_of U p),
       ba_left = xMin (bounds_of U p),
       ba_numTicks = xTicksCount_of p,
       ba_labelOffset = xLabelOffset_of p,
       ba_stroke = axes_color (p_style p),
       ba_tickStroke = axes_color (p_style p),
       ba_hideTicks = (x_tick_display (settings_x (p_settings p)) = Some ''hide''),
       ba_labelProps = labelProps_of p,
       ba_tickFormat =
         (\<lambda>v. formatXTick U v (x_type (settings_x (p_settings p))) (x_format (settings_x (p_settings p)))),
       ba_tickComponent =
         (\<lambda>props.
            if areXTicksHidden_of p then None
            else Some (getXTickProps U props (axes_ticks_fontSize (p_style p))
                         (xTickWidthLimit_of U p) (areXTicksRotated_of p))),
       ba_tickLabelProps = tickProps_of p \<rparr>"

definition legend_of :: "utils \<Rightarrow> xychart_props \<Rightarrow> legend" where
  "legend_of U p =
     \<lparr> lg_leftColumn = leftColumn (getLegendColumns U (series_of U p)),
       lg_rightColumn = rightColumn (getLegendColumns U (series_of U p)),
       lg_padding = CHART_PADDING U,
       lg_top = p_height p,
       lg_width = p_width p,
       lg_lineHeight = legend_lineHeight (p_style p),
       lg_fontSize = legend_fontSize (p_style p) \<rparr>"

text \<open>
  \<open>XYChart\<close> itself. The source has no \<open>throw\<close>; the only failure of its own statements
  is the call of an absent default scale for the goal line.
\<close>

definition XYChart :: "utils \<Rightarrow> xychart_props \<Rightarrow> error + scene" where
  "XYChart U p =
     (case goalLine_of U p of
        Inl e \<Rightarrow> Inl e
      | Inr goalLine \<Rightarrow>
          Inr \<lparr> svg_width = p_width p,
                svg_height = js_add (p_height p) (legendHeight_of U p),
                svg_group =
                  \<lparr> g_top = m_top (margin_of U p),
                    g_left = xMin (bounds_of U p),
                    g_gridRows = gridRows_of U p,
                    g_barSeries = barSeries_of U p,
                    g_areaSeries = areaSeries_of U p,
                    g_lineSeries = lineSeries_of U p,
                    g_goalLine = goalLine \<rparr>,
                svg_axisLeft = axisLeft_of U p,
                svg_axisRight = axisRight_of U p,
                svg_axisBottom = axisBottom_of U p,
                svg_legend = legend_of U p \<rparr>)"
section \<open>The helpers, from the specification\<close>

text \<open>
  The functions of \<open>XYChart/utils\<close> that decide a property of the chart are written out
  from the specification, each one from the sentences quoted above it. Their arithmetic
  is the exact arithmetic of the specification.
\<close>

text \<open>
  Modelled from the spec: \<open>sortSeries\<close> is not in the source. Section 4.1: the normaliser
  sorts by a stable key derived from the X type (the given order of the labels for an
  ordinal axis, the order of the values otherwise); the sort is stable for equal keys.
  The key of a time value is its number.
\<close>

fun xkey :: "xvalue \<Rightarrow> number" where
  "xkey (XNum r) = r"
| "xkey (XStr s) = 0"

definition hydrate :: "series \<Rightarrow> hydrated_series" where
  "hydrate s = series.extend s (hydrated_series.fields None)"

definition sortSeries_spec :: "series list \<Rightarrow> x_axis_type \<Rightarrow> hydrated_series list" where
  "sortSeries_spec ss t =
     (if t = Ordinal then map hydrate ss
      else map (\<lambda>s. hydrate (s\<lparr>s_data := sort_key (\<lambda>d. xkey (fst d)) (s_data s)\<rparr>)) ss)"

text \<open>
  Modelled from the spec: \<open>calculateStackedItems\<close> is not in the source. Section 4.1:
  when stacking is enabled, the plotted Y of each point is the cumulative sum of the
  same-x values across the series in series order, and each series gets a pair
  (baseline, value) for each point rather than a single value. The baseline of a point
  is the sum of the values at its x in the series before its own.
\<close>

definition valueAt :: "xvalue \<Rightarrow> hydrated_series \<Rightarrow> number" where
  "valueAt xv s = sum_list (map snd (filter (\<lambda>d. fst d = xv) (s_data s)))"

definition baselineAt :: "hydrated_series list \<Rightarrow> xvalue \<Rightarrow> number" where
  "baselineAt earlier xv = sum_list (map (valueAt xv) earlier)"

fun stackItems :: "hydrated_series list \<Rightarrow> hydrated_series list \<Rightarrow> hydrated_series list" where
  "stackItems earlier [] = []"
| "stackItems earlier (s # rest) =
     s\<lparr>s_stacked := Some (map (\<lambda>(xv, yv). (xv, baselineAt earlier xv, yv)) (s_data s))\<rparr>
       # stackItems (earlier @ [s]) rest"

definition calculateStackedItems_spec :: "hydrated_series list \<Rightarrow> hydrated_series list" where
  "calculateStackedItems_spec ss = stackItems [] ss"


text \<open>
  Modelled from the spec: \<open>calculateYDomains\<close> is not in the source. Section 4.2: one
  domain for each side; the domain of a side that no series occupies is null; the domain
  includes zero when a series of the side is a bar or an area; the goal value extends the
  domain of the default side only, the left one if it is occupied and the right one
  otherwise. The specification leaves open the domain of an occupied side without any
  value; it is taken as [0, 0].
\<close>

definition plottedValues :: "hydrated_series \<Rightarrow> number list" where
  "plottedValues s =
     (case s_stacked s of
        Some st \<Rightarrow> map (\<lambda>(xv, b, v). b + v) st
      | None \<Rightarrow> map snd (s_data s))"

definition sideDomain ::
  "y_axis_position \<Rightarrow> hydrated_series list \<Rightarrow> number option \<Rightarrow> domain option" where
  "sideDomain side ss goalValue =
     (let on_side = filter (\<lambda>s. s_axis s = side) ss in
      if on_side = [] then None
      else
        (let vs = concat (map plottedValues on_side)
               @ (if \<exists>s \<in> set on_side. s_type s = Bar \<or> s_type s = Area then [0] else [])
               @ (case goalValue of Some g \<Rightarrow> [g] | None \<Rightarrow> [])
         in case vs of
              [] \<Rightarrow> Some (0, 0)
            | v # rest \<Rightarrow> Some (fold min rest v, fold max rest v)))"

definition calculateYDomains_spec :: "hydrated_series list \<Rightarrow> number option \<Rightarrow> y_domains" where
  "calculateYDomains_spec ss goalValue =
     (let left_occupied = (\<exists>s \<in> set ss. s_axis s = YLeft) in
      \<lparr> domain_left = sideDomain YLeft ss (if left_occupied then goalValue else None),
        domain_right = sideDomain YRight ss (if left_occupied then None else goalValue) \<rparr>)"

text \<open>
  Modelled from the spec: \<open>createYScales\<close> is not in the source. Section 4.4: one
  function for each side present in the domain, no scale for an absent side; a numeric
  scale interpolates linearly (a logarithmic axis is not modelled). On a domain of one
  point the scale stays at the start of the range.
\<close>

definition linearScale :: "number \<times> number \<Rightarrow> domain \<Rightarrow> number \<Rightarrow> number" where
  "linearScale rng dm v =
     (if snd dm = fst dm then fst rng
      else fst rng + (v - fst dm) / (snd dm - fst dm) * (snd rng - fst rng))"

definition createYScales_spec ::
  "number \<times> number \<Rightarrow> string \<Rightarrow> domain option \<Rightarrow> domain option \<Rightarrow> y_scales" where
  "createYScales_spec rng yType left right =
     \<lparr> yScaleLeft = map_option (linearScale rng) left,
       yScaleRight = map_option (linearScale rng) right \<rparr>"

text \<open>
  Modelled from the spec: \<open>createXScale\<close> is not in the source. Section 4.4: an ordinal
  scale has discrete positions with a uniform bandwidth derived from the slot count, a
  linear or time-based scale is continuous; the scale exposes the bar anchor and the
  centre anchor, which coincide on a continuous scale, the bar anchor being the start of
  the band on an ordinal one. Section 3: a scale has a bandwidth when it is ordinal.
\<close>

fun indexOf :: "'a \<Rightarrow> 'a list \<Rightarrow> nat" where
  "indexOf a [] = 0"
| "indexOf a (b # bs) = (if a = b then 0 else Suc (indexOf a bs))"

definition createXScale_spec ::
  "hydrated_series list \<Rightarrow> number \<times> number \<Rightarrow> x_axis_type \<Rightarrow> x_scale" where
  "createXScale_spec ss rng t =
     (let points = concat (map s_data ss) in
      if t = Ordinal then
        (let slots = remdups (map fst points);
             bandwidth = (if slots = [] then 0
                          else (snd rng - fst rng) / of_nat (length slots));
             start = (\<lambda>xv. fst rng + of_nat (indexOf xv slots) * bandwidth)
         in \<lparr> xs_scale = start,
              xs_bandwidth = Some bandwidth,
              xs_lineAccessor = (\<lambda>d. start (fst d) + bandwidth / 2),
              xs_barAccessor = Some (\<lambda>d. start (fst d)) \<rparr>)
      else
        (let keys = map (\<lambda>d. xkey (fst d)) points;
             dm = (case keys of [] \<Rightarrow> (0, 0) | k # rest \<Rightarrow> (fold min rest k, fold max rest k));
             position = (\<lambda>xv. linearScale rng dm (xkey xv))
         in \<lparr> xs_scale = position,
              xs_bandwidth = None,
              xs_lineAccessor = (\<lambda>d. position (fst d)),
              xs_barAccessor = Some (\<lambda>d. position (fst d)) \<rparr>))"

text \<open>
  Modelled from the spec: \<open>calculateBounds\<close> is not in the source. Section 4.3: the inner
  width is the width less the left and right margins, the inner height the height less
  the top and bottom margins; the plot area starts at the left and top margins.
\<close>

definition calculateBounds_spec :: "margin \<Rightarrow> number \<Rightarrow> number \<Rightarrow> bounds" where
  "calculateBounds_spec m width height =
     \<lparr> xMin = m_left m,
       xMax = width - m_right m,
       yMin = height - m_bottom m,
       innerHeight = height - m_top m - m_bottom m,
       innerWidth = width - m_left m - m_right m \<rparr>"

subsection \<open>The collaborators of the host\<close>

text \<open>
  The number formatter and the text metrics are supplied by the host (section 6), and
  the remaining helpers depend on them. To run \<open>XYChart\<close> on explicit inputs they are
  given simple instances: a formatter that prints the integer part in decimal and, in
  compact mode, abbreviates thousands and millions; a text of n characters at font size
  f is n * f / 2 wide.
\<close>

fun digits :: "nat \<Rightarrow> string" where
  "digits n =
     (if n < 10 then [''0123456789'' ! n]
      else digits (n div 10) @ [''0123456789'' ! (n mod 10)])"

declare digits.simps [simp del]

definition formatNumber_example :: "number \<Rightarrow> obj nullable \<Rightarrow> string" where
  "formatNumber_example v format =
     (let n = nat \<lfloor>\<bar>v\<bar>\<rfloor>;
          sign = (if v < 0 then ''-'' else []);
          isCompact = (case format of Defined c \<Rightarrow> truthy (getOwn c ''compact'')
                       | _ \<Rightarrow> False)
      in sign @
         (if isCompact \<and> 1000000 \<le> n then digits (n div 1000000) @ ''M''
          else if isCompact \<and> 1000 \<le> n then digits (n div 1000) @ ''k''
          else digits n))"

definition measureText :: "string \<Rightarrow> number \<Rightarrow> number" where
  "measureText s fontSize = of_nat (length s) * fontSize / 2"

definition formatXTick_example :: "xvalue \<Rightarrow> x_axis_type \<Rightarrow> jsval \<Rightarrow> string" where
  "formatXTick_example xv t format =
     (case xv of XStr s \<Rightarrow> s | XNum r \<Rightarrow> formatNumber_example r IsUndefined)"

definition getYTickWidths_example ::
  "obj nullable \<Rightarrow> number \<Rightarrow> domain option \<Rightarrow> domain option \<Rightarrow> y_tick_widths" where
  "getYTickWidths_example format fontSize left right =
     (let w = (\<lambda>d. case d of None \<Rightarrow> 0
                    | Some (lo, hi) \<Rightarrow>
                        max (measureText (formatNumber_example lo format) fontSize)
                            (measureText (formatNumber_example hi format) fontSize))
      in \<lparr> ytw_left = w left, ytw_right = w right \<rparr>)"

definition getXTicksDimensions_example ::
  "hydrated_series list \<Rightarrow> x_settings \<Rightarrow> number \<Rightarrow> x_ticks_dimensions" where
  "getXTicksDimensions_example ss xs fontSize =
     (let widths =
        map (\<lambda>d. measureText (formatXTick_example (fst d) (x_type xs) (x_format xs)) fontSize)
            (concat (map s_data ss));
          widest = fold max widths 0
      in if x_tick_display xs = Some ''hide'' then
           \<lparr> xtd_height = 0, xtd_width = 0, xtd_maxTextWidth = 0 \<rparr>
         else \<lparr> xtd_height = fontSize, xtd_width = widest, xtd_maxTextWidth = widest \<rparr>)"

definition calculateMargin_example ::
  "number \<Rightarrow> number \<Rightarrow> number \<Rightarrow> number \<Rightarrow> number \<Rightarrow> axis_labels \<Rightarrow> number \<Rightarrow> bool \<Rightarrow> margin" where
  "calculateMargin_example padding yTickWidthLeft yTickWidthRight xTickHeight xTickWidth
       lbls fontSize hasTopAllowance =
     (let extent = (\<lambda>l. case l of None \<Rightarrow> 0 | Some text \<Rightarrow> fontSize) in
      \<lparr> m_top = padding + (if hasTopAllowance then fontSize else 0),
        m_bottom = xTickHeight + extent (label_bottom lbls) + padding,
        m_left = yTickWidthLeft + extent (label_left lbls) + padding,
        m_right = yTickWidthRight + extent (label_right lbls) + padding \<rparr>)"

definition getLegendColumns_example :: "hydrated_series list \<Rightarrow> legend_columns" where
  "getLegendColumns_example ss =
     \<lparr> leftColumn = take ((length ss + 1) div 2) ss,
       rightColumn = drop ((length ss + 1) div 2) ss \<rparr>"

definition getXTickWidthLimit_example :: "x_settings \<Rightarrow> number \<Rightarrow> number option \<Rightarrow> number" where
  "getXTickWidthLimit_example xs maxTextWidth bandwidth =
     (case bandwidth of None \<Rightarrow> maxTextWidth | Some b \<Rightarrow> min b maxTextWidth)"

definition getValueStep_example ::
  "hydrated_series list \<Rightarrow> (number \<Rightarrow> string) \<Rightarrow> text_props \<Rightarrow> number \<Rightarrow> number" where
  "getValueStep_example ss formatter props width =
     (let fontSize = (case tp_fontSize props of Some f \<Rightarrow> f | None \<Rightarrow> 12);
          widths = map (\<lambda>d. measureText (formatter (snd d)) fontSize) (concat (map s_data ss));
          w = fold max widths 0;
          n = fold max (map (\<lambda>s. length (s_data s)) ss) 0
      in if n \<le> 1 \<or> width \<le> 0 then 1
         else max 1 (of_int \<lceil>w * of_nat (n - 1) / width\<rceil>))"

definition example_utils :: utils where
  "example_utils =
     \<lparr> CHART_PADDING = 16,
       LABEL_PADDING = 12,
       formatNumber = formatNumber_example,
       sortSeries = sortSeries_spec,
       calculateStackedItems = calculateStackedItems_spec,
       calculateYDomains = calculateYDomains_spec,
       getYTickWidths = getYTickWidths_example,
       getXTicksDimensions = getXTicksDimensions_example,
       calculateMargin = calculateMargin_example 16,
       calculateBounds = calculateBounds_spec,
       createXScale = createXScale_spec,
       createYScales = createYScales_spec,
       getLegendColumns = getLegendColumns_example,
       getXTickWidthLimit = getXTickWidthLimit_example,
       getValueStep = getValueStep_example,
       formatXTick = formatXTick_example,
       getXTickProps = (\<lambda>props fontSize limit rotated. props) \<rparr>"

subsection \<open>Explicit inputs\<close>

definition example_style :: chart_style where
  "example_style =
     \<lparr> fontFamily = ''Lato'', axes_color = ''#949AAB'', axes_ticks_color = ''#949AAB'',
       axes_ticks_fontSize = 12, axes_labels_color = ''#4C5773'', axes_labels_fontSize = 14,
       axes_labels_fontWeight = 700, legend_fontSize = 13, legend_lineHeight = 16,
       style_value = Some \<lparr> vs_color = ''#4C5773'', vs_fontSize = 12, vs_fontWeight = 800 \<rparr>,
       goalColor = ''#4C5773'' \<rparr>"

definition example_settings :: chart_settings where
  "example_settings =
     \<lparr> settings_x = \<lparr> x_type = Ordinal, x_format = Undefined, x_tick_display = None \<rparr>,
       settings_y = \<lparr> y_type = ''linear'', y_format = Defined Map.empty \<rparr>,
       stacking = StackingNone,
       goal = None,
       show_values = True,
       labels = \<lparr> label_left = Some ''Count'', label_right = None, label_bottom = None \<rparr> \<rparr>"

definition example_goal :: goal where
  "example_goal = \<lparr> goal_value = 10, goal_label = ''Target'' \<rparr>"

definition mk_series ::
  "string \<Rightarrow> series_type \<Rightarrow> y_axis_position \<Rightarrow> datum list \<Rightarrow> series" where
  "mk_series name t side ds =
     \<lparr> s_name = name, s_color = ''#509EE3'', s_axis = side, s_type = t, s_data = ds \<rparr>"

definition mk_props :: "series list \<Rightarrow> chart_settings \<Rightarrow> xychart_props" where
  "mk_props ss settings =
     \<lparr> p_width = 400, p_height = 300, p_series = ss, p_settings = settings,
       p_style = example_style \<rparr>"
subsection \<open>The mean formatted length, in the words of the specification\<close>




text \<open>
  A concrete query environment, used to run the clause functions on explicit clauses.
  Modelled from the spec: \<open>metabase/lib/query_aggregation\<close> and the metadata are not in
  the source. The specification only names the kinds of clause (standard aggregations,
  metric references, custom expressions, option wrappers); here a clause is standard when
  its head is one of the usual operators and custom when it is neither standard nor a
  metric reference. Metric 1 is defined as a distinct count, metric 2 refers to itself.
\<close>

definition STANDARD_AGGREGATIONS :: "jsval list" where
  "STANDARD_AGGREGATIONS =
     map JStr [''count'', ''cum-count'', ''sum'', ''cum-sum'', ''distinct'', ''stddev'',
               ''avg'', ''min'', ''max'', ''median'']"

definition example_metrics :: "jsval \<Rightarrow> clause option" where
  "example_metrics v =
     (if v = JNum 1 then Some [JStr ''distinct'', JArr [JStr ''field'', JNum 7, Null]]
      else if v = JNum 2 then Some [JStr ''metric'', JNum 2]
      else None)"

definition example_query :: query_env where
  "example_query =
     \<lparr> isStandardA = (\<lambda>c. List.member STANDARD_AGGREGATIONS (item c 0)),
       isCustomA = (\<lambda>c. \<not> List.member STANDARD_AGGREGATIONS (item c 0) \<and> \<not> isMetric c),
       metricAggregation = example_metrics \<rparr>"

definition distinct_unnamed :: clause where
  "distinct_unnamed =
     [JStr ''aggregation-options'', JArr [JStr ''distinct'', JArr [JStr ''field'', JNum 7, Null]],
      JObj [(''display-name'', JStr [])]]"

definition distinct_named :: clause where
  "distinct_named =
     [JStr ''aggregation-options'', JArr [JStr ''distinct'', JArr [JStr ''field'', JNum 7, Null]],
      JObj [(''display-name'', JStr ''Users'')]]"

definition distinct_plain :: clause where
  "distinct_plain = [JStr ''distinct'', JArr [JStr ''field'', JNum 7, Null]]"

definition custom_expression :: clause where
  "custom_expression = [JStr ''+'', JArr [JStr ''count''], JNum 1]"

definition unknown_metric :: clause where
  "unknown_metric = [JStr ''metric'', JNum 3]"

definition empty_chart :: xychart_props where
  "empty_chart = mk_props [] example_settings"

definition empty_chart_with_goal :: xychart_props where
  "empty_chart_with_goal = mk_props [] (example_settings\<lparr>goal := Some example_goal\<rparr>)"

definition three_bars :: "series list" where
  "three_bars = [mk_series ''Orders'' Bar YLeft [(XNum 0, 1), (XNum 1, 2), (XNum 2, 3)]]"

definition ordinal_bar_chart :: xychart_props where
  "ordinal_bar_chart = mk_props three_bars example_settings"

definition linear_bar_chart :: xychart_props where
  "linear_bar_chart =
     mk_props three_bars
       (example_settings\<lparr>settings_x :=
          \<lparr> x_type = Linear, x_format = Undefined, x_tick_display = None \<rparr>\<rparr>)"

definition goal_bar_chart :: xychart_props where
  "goal_bar_chart = mk_props three_bars (example_settings\<lparr>goal := Some example_goal\<rparr>)"

definition right_line_chart :: xychart_props where
  "right_line_chart =
     mk_props [mk_series ''Revenue'' Line YRight [(XNum 0, 4), (XNum 1, 5)]] example_settings"







section \<open>Properties of the aggregation clause\<close>

lemma baseType_cases:
  "baseType E n c =
     (case short E n c of
        None \<Rightarrow> None
      | Some (Inl e) \<Rightarrow> Some (Inl e)
      | Some (Inr s) \<Rightarrow>
          Some (Inr (if s = JStr ''count'' \<or> s = JStr ''cum-count'' \<or> s = JStr ''distinct''
                     then Integer else Float)))"
  by (simp add: baseType_def INTEGER_AGGREGATIONS_def split: option.splits sum.splits)

lemma short_plain:
  "aggregation c = Inr a \<Longrightarrow> \<not> isMetric a \<Longrightarrow>
     short E n c = Some (Inr (if isStandardA E a then item a 0 else Undefined))"
  by (cases n) (simp_all add: short_body_def)

lemma short_no_metric:
  "aggregation c = Inr a \<Longrightarrow> isMetric a \<Longrightarrow> metric E a = None \<Longrightarrow>
     short E n c = Some (Inr Undefined)"
  by (cases n) (simp_all add: short_body_def)

text \<open>More fuel never changes a result that was reached.\<close>

lemma short_mono: "short E n c = Some r \<Longrightarrow> short E (n + k) c = Some r"
proof (induction n arbitrary: c)
  case 0
  then show ?case
    by (cases k) (auto simp: short_body_def split: sum.splits option.splits if_splits)
next
  case (Suc n)
  then show ?case
    by (auto simp: short_body_def split: sum.splits option.splits if_splits)
qed

lemma columnName_unfold:
  "columnName E n c =
     columnName_body E (short E n c) (case n of 0 \<Rightarrow> (\<lambda>m. None) | Suc k \<Rightarrow> columnName E k) c"
  by (cases n) simp_all

lemma columnName_displayName:
  "truthy (getProp (options c) ''display-name'') \<Longrightarrow>
     columnName E n c = Some (Inr (getProp (options c) ''display-name''))"
  by (cases n) (simp_all add: columnName_body_def)

lemma columnName_distinct:
  assumes "\<not> truthy (getProp (options c) ''display-name'')"
    and "aggregation c = Inr a" and "\<not> isCustomA E a" and "isStandardA E a"
    and "item a 0 = JStr ''distinct''"
  shows "columnName E n c = Some (Inr (JStr ''count''))"
proof -
  have nm: "\<not> isMetric a" using assms(5) by (simp add: isMetric_def)
  have sh: "short E n c = Some (Inr (JStr ''distinct''))"
    using short_plain [OF assms(2) nm, of E n] assms(4,5) by simp
  show ?thesis
    unfolding columnName_unfold [of E n c] sh
    using assms nm by (simp add: columnName_body_def)
qed

lemmas example_simps =
  options_def hasOptions_def item_def aggregation_def isMetric_def metric_def metricId_def
  example_query_def example_metrics_def STANDARD_AGGREGATIONS_def short_body_def
  distinct_unnamed_def distinct_named_def distinct_plain_def custom_expression_def
  unknown_metric_def

text \<open>
  C9, as stated, at the clause
  \<open>["aggregation-options", ["distinct", ["field", 7, null]], {"display-name": ""}]\<close>:
  the clause has a \<open>display-name\<close> option, the empty string, and \<open>columnName\<close> returns
  \<open>"count"\<close>, not that display name: \<open>if (displayName)\<close> tests truthiness.
\<close>

theorem columnName_empty_display_name:
  "getProp (options distinct_unnamed) ''display-name'' = JStr [] \<and>
   columnName example_query 0 distinct_unnamed = Some (Inr (JStr ''count''))"
  by (simp add: example_simps columnName_body_def)

text \<open>
  C9, amended. For a standard aggregation clause (an options wrapper around it included)
  whose operator is \<open>"distinct"\<close> and whose options carry no truthy \<open>display-name\<close>,
  \<open>columnName\<close> returns \<open>"count"\<close>, not \<open>"distinct"\<close>. For every clause whose
  \<open>display-name\<close> option is truthy (a non-empty string), \<open>columnName\<close> returns that display
  name, whatever the kind of the aggregation and whatever the environment.
\<close>

theorem columnName_distinct_or_display_name:
  "(\<not> truthy (getProp (options c) ''display-name'') \<and> aggregation c = Inr a \<and>
      \<not> isCustomA E a \<and> isStandardA E a \<and> item a 0 = JStr ''distinct''
      \<longrightarrow> columnName E n c = Some (Inr (JStr ''count''))) \<and>
   (truthy (getProp (options c) ''display-name'')
      \<longrightarrow> columnName E n c = Some (Inr (getProp (options c) ''display-name'')))"
  using columnName_distinct [of c a E n] columnName_displayName [of c E n] by blast

theorem columnName_distinct_or_display_name_witness:
  "columnName example_query 0 distinct_plain = Some (Inr (JStr ''count'')) \<and>
   getProp (options distinct_named) ''display-name'' = JStr ''Users'' \<and>
   columnName example_query 0 distinct_named = Some (Inr (JStr ''Users''))"
proof -
  have h1: "\<not> truthy (getProp (options distinct_plain) ''display-name'') \<and>
      aggregation distinct_plain = Inr distinct_plain \<and>
      \<not> isCustomA example_query distinct_plain \<and> isStandardA example_query distinct_plain \<and>
      item distinct_plain 0 = JStr ''distinct''"
    by (simp add: example_simps)
  have h2: "getProp (options distinct_named) ''display-name'' = JStr ''Users''"
    by (simp add: example_simps)
  have h3: "truthy (getProp (options distinct_named) ''display-name'')"
    by (simp add: h2)
  from columnName_distinct_or_display_name [of distinct_plain distinct_plain example_query 0] h1
  have c1: "columnName example_query 0 distinct_plain = Some (Inr (JStr ''count''))"
    by blast
  from columnName_distinct_or_display_name [of distinct_named distinct_named example_query 0] h3
  have c2: "columnName example_query 0 distinct_named =
      Some (Inr (getProp (options distinct_named) ''display-name''))"
    by blast
  show ?thesis using c1 c2 h2 by simp
qed

text \<open>
  C10. \<open>baseType\<close> returns the Integer type exactly when the short operator of the clause
  is \<open>"count"\<close>, \<open>"cum-count"\<close> or \<open>"distinct"\<close>, and the Float type for every other short
  operator, \<open>undefined\<close> included: a custom expression (neither a metric nor standard)
  and a metric clause whose metric is not found have the short operator \<open>undefined\<close> and
  the base type Float. (\<open>baseType\<close> returns whenever \<open>short\<close> does.)
\<close>

theorem baseType_integer_iff:
  "(baseType E n c = Some (Inr Integer) \<longleftrightarrow>
      short E n c = Some (Inr (JStr ''count'')) \<or>
      short E n c = Some (Inr (JStr ''cum-count'')) \<or>
      short E n c = Some (Inr (JStr ''distinct''))) \<and>
   (baseType E n c = Some (Inr Float) \<longleftrightarrow>
      (\<exists>s. short E n c = Some (Inr s) \<and> s \<noteq> JStr ''count'' \<and> s \<noteq> JStr ''cum-count'' \<and>
           s \<noteq> JStr ''distinct'')) \<and>
   (short E n c = Some (Inr Undefined) \<longrightarrow> baseType E n c = Some (Inr Float)) \<and>
   (\<forall>a. aggregation c = Inr a \<and> \<not> isMetric a \<and> \<not> isStandardA E a \<longrightarrow>
        short E n c = Some (Inr Undefined) \<and> baseType E n c = Some (Inr Float)) \<and>
   (\<forall>a. aggregation c = Inr a \<and> isMetric a \<and> metric E a = None \<longrightarrow>
        short E n c = Some (Inr Undefined) \<and> baseType E n c = Some (Inr Float))"
  apply (intro conjI allI impI)
  subgoal by (auto simp: baseType_cases split: option.splits sum.splits if_splits)
  subgoal by (auto simp: baseType_cases split: option.splits sum.splits if_splits)
  subgoal by (simp add: baseType_cases)
  subgoal by (simp add: short_plain)
  subgoal by (simp add: baseType_cases short_plain)
  subgoal by (simp add: short_no_metric)
  subgoal by (simp add: baseType_cases short_no_metric)
  done

theorem baseType_integer_iff_witness:
  "short example_query 0 distinct_plain = Some (Inr (JStr ''distinct'')) \<and>
   baseType example_query 0 distinct_plain = Some (Inr Integer) \<and>
   short example_query 0 custom_expression = Some (Inr Undefined) \<and>
   baseType example_query 0 custom_expression = Some (Inr Float) \<and>
   short example_query 0 unknown_metric = Some (Inr Undefined) \<and>
   baseType example_query 0 unknown_metric = Some (Inr Float)"
proof -
  have s1: "short example_query 0 distinct_plain = Some (Inr (JStr ''distinct''))"
    by (simp add: example_simps)
  have a2: "aggregation custom_expression = Inr custom_expression \<and>
      \<not> isMetric custom_expression \<and> \<not> isStandardA example_query custom_expression"
    by (simp add: example_simps)
  have a3: "aggregation unknown_metric = Inr unknown_metric \<and> isMetric unknown_metric \<and>
      metric example_query unknown_metric = None"
    by (simp add: example_simps)
  from baseType_integer_iff [of example_query 0 distinct_plain] s1
  have b1: "baseType example_query 0 distinct_plain = Some (Inr Integer)" by blast
  from baseType_integer_iff [of example_query 0 custom_expression] a2
  have b2: "short example_query 0 custom_expression = Some (Inr Undefined) \<and>
      baseType example_query 0 custom_expression = Some (Inr Float)" by blast
  from baseType_integer_iff [of example_query 0 unknown_metric] a3
  have b3: "short example_query 0 unknown_metric = Some (Inr Undefined) \<and>
      baseType example_query 0 unknown_metric = Some (Inr Float)" by blast
  show ?thesis using s1 b1 b2 b3 by simp
qed

section \<open>Properties of the rounding\<close>


















lemma exponent_minus [simp]: "exponent (- x) = exponent x"
  by (simp add: exponent_def)

lemma ulp_minus [simp]: "ulp (- x) = ulp x"
  by (simp add: ulp_def)











section \<open>Properties of the chart\<close>

subsection \<open>General facts\<close>

lemma maybeAssoc_null:
  "maybeAssoc production h IsNull key v = (IsNull, h)"
  "maybeAssoc production h IsUndefined key v = (IsUndefined, h)"
  by (simp_all add: maybeAssoc_def)

lemma maybeAssoc_same:
  assumes "getIn h c key = of_primitive v"
  shows "maybeAssoc production h (Defined c) key v = (Defined c, freeze production h c)"
  using assms by (simp add: maybeAssoc_def assoc_def)

lemma maybeAssoc_copy:
  assumes "getIn h c key \<noteq> of_primitive v"
  shows "maybeAssoc production h (Defined c) key v =
           (Defined (length h),
            h @ [\<lparr> properties = (properties (h ! c))(key \<mapsto> of_primitive v),
                   isFrozen = \<not> production \<rparr>])"
  using assms by (simp add: maybeAssoc_def assoc_def freeze_def Let_def)

lemma properties_freeze:
  "a < length h \<Longrightarrow> properties (freeze production h c ! a) = properties (h ! a)"
  by (cases "a = c") (simp_all add: freeze_def)

lemma length_freeze [simp]: "length (freeze production h c) = length h"
  by (simp add: freeze_def)

lemma isFrozen_freeze:
  "c < length h \<Longrightarrow> isFrozen (freeze production h c ! c) \<longleftrightarrow> \<not> production \<or> isFrozen (h ! c)"
  by (simp add: freeze_def)

lemma freeze_other: "a \<noteq> c \<Longrightarrow> freeze production h c ! a = h ! a"
  by (simp add: freeze_def)

lemma maybeAssocProps_cases:
  "maybeAssocProps IsNull key v = IsNull"
  "maybeAssocProps IsUndefined key v = IsUndefined"
  "maybeAssocProps (Defined c) key v =
     Defined (if getOwn c key = of_primitive v then c else c(key \<mapsto> of_primitive v))"
  by (simp_all add: maybeAssocProps_def maybeAssoc_def assoc_def freeze_def getIn_def Let_def)

text \<open>
  The properties of what \<open>maybeAssoc\<close> returns are those that \<open>maybeAssocProps\<close> computes,
  in any store and whether or not the library freezes.
\<close>

lemma maybeAssoc_properties:
  assumes "c < length h"
  shows "(case maybeAssoc production h (Defined c) key v of
            (r, h') \<Rightarrow> map_nullable (\<lambda>a. properties (h' ! a)) r) =
         maybeAssocProps (Defined (properties (h ! c))) key v"
proof (cases "getIn h c key = of_primitive v")
  case True
  then show ?thesis
    using assms
    by (simp add: maybeAssoc_same maybeAssocProps_cases properties_freeze getIn_def)
next
  case False
  then show ?thesis
    by (simp add: maybeAssoc_copy maybeAssocProps_cases getIn_def)
qed

lemma goalLine_of_error: "goalLine_of U p = Inl e \<Longrightarrow> e = TypeError"
  by (auto simp: goalLine_of_def split: option.splits)

lemma XYChart_error_iff: "XYChart U p = Inl e \<longleftrightarrow> goalLine_of U p = Inl e"
  by (auto simp: XYChart_def split: sum.splits)

lemma XYChart_scene:
  assumes "XYChart U p = Inr sc"
  shows "g_gridRows (svg_group sc) = gridRows_of U p"
    and "g_barSeries (svg_group sc) = barSeries_of U p"
    and "g_areaSeries (svg_group sc) = areaSeries_of U p"
    and "g_lineSeries (svg_group sc) = lineSeries_of U p"
    and "goalLine_of U p = Inr (g_goalLine (svg_group sc))"
    and "svg_axisLeft sc = axisLeft_of U p"
    and "svg_axisRight sc = axisRight_of U p"
    and "svg_axisBottom sc = axisBottom_of U p"
    and "svg_legend sc = legend_of U p"
  using assms by (auto simp: XYChart_def split: sum.splits)

lemma XYChart_returns_iff:
  "(\<exists>sc. XYChart U p = Inr sc) \<longleftrightarrow>
     (goal (p_settings p) = None \<or> defaultYScale_of U p \<noteq> None)"
  by (auto simp: XYChart_def goalLine_of_def split: sum.splits option.splits)

lemma getAvgLength_no_points: "series_of U p = [] \<Longrightarrow> getAvgLength U p b = NaN"
  by (simp add: getAvgLength_def js_div_def)

lemma barSeries_of_iff:
  "barSeries_of U p \<noteq> None \<longleftrightarrow>
     xs_barAccessor (xScale_of U p) \<noteq> None \<and>
     (\<exists>b. xs_bandwidth (xScale_of U p) = Some b \<and> b \<noteq> 0)"
  by (auto simp: barSeries_of_def split: option.splits)

lemma createXScale_spec_continuous:
  "t \<noteq> Ordinal \<Longrightarrow>
     xs_bandwidth (createXScale_spec ss rng t) = None \<and>
     xs_barAccessor (createXScale_spec ss rng t) =
       Some (xs_lineAccessor (createXScale_spec ss rng t))"
  by (simp add: createXScale_spec_def Let_def)

lemma createXScale_spec_bar: "xs_barAccessor (createXScale_spec ss rng t) \<noteq> None"
  by (simp add: createXScale_spec_def Let_def)

lemma s_axis_hydrate: "s_axis (hydrate s) = s_axis s"
  by (simp add: hydrate_def series.defs)

lemma s_type_hydrate: "s_type (hydrate s) = s_type s"
  by (simp add: hydrate_def series.defs)


lemma sortSeries_spec_axes: "map s_axis (sortSeries_spec ss t) = map s_axis ss"
  by (simp add: sortSeries_spec_def s_axis_hydrate comp_def)

lemma stackItems_axes: "map s_axis (stackItems earlier ss) = map s_axis ss"
  by (induction ss arbitrary: earlier) simp_all

lemma sideDomain_None: "\<forall>s \<in> set ss. s_axis s \<noteq> side \<Longrightarrow> sideDomain side ss g = None"
  by (simp add: sideDomain_def filter_empty_conv)

lemma sideDomain_Some_iff:
  "sideDomain side ss g \<noteq> None \<longleftrightarrow> (\<exists>s \<in> set ss. s_axis s = side)"
  by (auto simp: sideDomain_def Let_def filter_empty_conv split: list.splits)

lemma series_of_spec_axes:
  assumes "sortSeries U = sortSeries_spec"
    and "calculateStackedItems U = calculateStackedItems_spec"
  shows "map s_axis (series_of U p) = map s_axis (p_series p)"
  using assms
  by (simp add: series_of_def Let_def calculateStackedItems_spec_def stackItems_axes
      sortSeries_spec_axes)

lemma all_axes_transfer:
  assumes "map s_axis xs = map s_axis ys" and "\<forall>s \<in> set ys. s_axis s = a"
  shows "\<forall>s \<in> set xs. s_axis s = a"
proof
  fix s assume "s \<in> set xs"
  then have "s_axis s \<in> set (map s_axis xs)" by simp
  then have "s_axis s \<in> set (map s_axis ys)" by (simp only: assms(1))
  with assms(2) show "s_axis s = a" by auto
qed

text \<open>With the helpers of the specification, a side that no series uses has no scale.\<close>

lemma spec_scale_absent:
  assumes "sortSeries U = sortSeries_spec"
    and "calculateStackedItems U = calculateStackedItems_spec"
    and "calculateYDomains U = calculateYDomains_spec"
    and "createYScales U = createYScales_spec"
  shows "\<forall>s \<in> set (p_series p). s_axis s = YLeft \<Longrightarrow> yScaleRight (yScales_of U p) = None"
    and "\<forall>s \<in> set (p_series p). s_axis s = YRight \<Longrightarrow> yScaleLeft (yScales_of U p) = None"
proof -
  assume l: "\<forall>s \<in> set (p_series p). s_axis s = YLeft"
  have "\<forall>s \<in> set (series_of U p). s_axis s = YLeft"
    using all_axes_transfer [OF series_of_spec_axes [OF assms(1,2)] l] .
  then have "\<forall>s \<in> set (series_of U p). s_axis s \<noteq> YRight" by simp
  then show "yScaleRight (yScales_of U p) = None"
    using assms(3,4)
    by (simp add: yScales_of_def yDomains_of_def createYScales_spec_def
        calculateYDomains_spec_def Let_def sideDomain_None)
next
  assume r: "\<forall>s \<in> set (p_series p). s_axis s = YRight"
  have "\<forall>s \<in> set (series_of U p). s_axis s = YRight"
    using all_axes_transfer [OF series_of_spec_axes [OF assms(1,2)] r] .
  then have "\<forall>s \<in> set (series_of U p). s_axis s \<noteq> YLeft" by simp
  then show "yScaleLeft (yScales_of U p) = None"
    using assms(3,4)
    by (simp add: yScales_of_def yDomains_of_def createYScales_spec_def
        calculateYDomains_spec_def Let_def sideDomain_None)
qed

text \<open>With the helpers of the specification, a chart that has a series has a Y scale.\<close>

lemma spec_default_scale_present:
  assumes "sortSeries U = sortSeries_spec"
    and "calculateStackedItems U = calculateStackedItems_spec"
    and "calculateYDomains U = calculateYDomains_spec"
    and "createYScales U = createYScales_spec"
    and "p_series p \<noteq> []"
  shows "defaultYScale_of U p \<noteq> None"
proof -
  from assms(5) obtain s0 where s0: "s0 \<in> set (p_series p)"
    by (cases "p_series p") auto
  have "s_axis s0 \<in> set (map s_axis (p_series p))" using s0 by simp
  then have "s_axis s0 \<in> set (map s_axis (series_of U p))"
    by (simp only: series_of_spec_axes [OF assms(1,2)])
  then obtain s where s: "s \<in> set (series_of U p)" and a: "s_axis s = s_axis s0"
    by auto
  have yl: "yScaleLeft (yScales_of U p) = None \<longleftrightarrow> domain_left (yDomains_of U p) = None"
    and yr: "yScaleRight (yScales_of U p) = None \<longleftrightarrow> domain_right (yDomains_of U p) = None"
    using assms(4) by (simp_all add: yScales_of_def createYScales_spec_def)
  obtain gl gr where dl: "domain_left (yDomains_of U p) = sideDomain YLeft (series_of U p) gl"
    and dr: "domain_right (yDomains_of U p) = sideDomain YRight (series_of U p) gr"
    using assms(3) by (simp add: yDomains_of_def calculateYDomains_spec_def Let_def)
  have l: "yScaleLeft (yScales_of U p) \<noteq> None \<longleftrightarrow> (\<exists>s \<in> set (series_of U p). s_axis s = YLeft)"
    unfolding yl dl by (rule sideDomain_Some_iff)
  have r: "yScaleRight (yScales_of U p) \<noteq> None \<longleftrightarrow> (\<exists>s \<in> set (series_of U p). s_axis s = YRight)"
    unfolding yr dr by (rule sideDomain_Some_iff)
  show ?thesis
  proof (cases "s_axis s")
    case YLeft
    with s l have "yScaleLeft (yScales_of U p) \<noteq> None" by blast
    then show ?thesis by (auto simp: defaultYScale_of_def)
  next
    case YRight
    with s r have "yScaleRight (yScales_of U p) \<noteq> None" by blast
    then show ?thesis by (auto simp: defaultYScale_of_def split: option.splits)
  qed
qed

subsection \<open>The explicit charts\<close>

lemmas chart_example_simps =
  mk_props_def mk_series_def example_settings_def example_style_def example_goal_def
  empty_chart_def empty_chart_with_goal_def three_bars_def ordinal_bar_chart_def
  linear_bar_chart_def goal_bar_chart_def right_line_chart_def

lemma example_utils_fields:
  "sortSeries example_utils = sortSeries_spec"
  "calculateStackedItems example_utils = calculateStackedItems_spec"
  "calculateYDomains example_utils = calculateYDomains_spec"
  "createYScales example_utils = createYScales_spec"
  "createXScale example_utils = createXScale_spec"
  "formatNumber example_utils = formatNumber_example"
  by (simp_all add: example_utils_def)

lemma example_series_of:
  "series_of example_utils empty_chart = []"
  "series_of example_utils empty_chart_with_goal = []"
  "series_of example_utils ordinal_bar_chart = map hydrate three_bars"
  "series_of example_utils goal_bar_chart = map hydrate three_bars"
  "map s_type (series_of example_utils linear_bar_chart) = [Bar]"
  by (simp_all add: series_of_def example_utils_fields sortSeries_spec_def chart_example_simps
      s_type_hydrate)

lemma example_goals:
  "goal (p_settings empty_chart) = None"
  "goal (p_settings ordinal_bar_chart) = None"
  "goal (p_settings linear_bar_chart) = None"
  "goal (p_settings right_line_chart) = None"
  "goal (p_settings empty_chart_with_goal) = Some example_goal"
  "goal (p_settings goal_bar_chart) = Some example_goal"
  by (simp_all add: chart_example_simps)

lemma example_x_types:
  "x_type (settings_x (p_settings ordinal_bar_chart)) = Ordinal"
  "x_type (settings_x (p_settings linear_bar_chart)) = Linear"
  by (simp_all add: chart_example_simps)

lemma example_axes:
  "\<forall>s \<in> set (p_series ordinal_bar_chart). s_axis s = YLeft"
  "\<forall>s \<in> set (p_series right_line_chart). s_axis s = YRight"
  by (simp_all add: chart_example_simps)


lemma right_line_chart_right: "yScaleRight (yScales_of example_utils right_line_chart) \<noteq> None"
proof -
  have "\<exists>s \<in> set (series_of example_utils right_line_chart). s_axis s = YRight"
    by (simp add: series_of_def example_utils_fields sortSeries_spec_def chart_example_simps
        s_axis_hydrate)
  then have "sideDomain YRight (series_of example_utils right_line_chart) None \<noteq> None"
    by (simp only: sideDomain_Some_iff)
  moreover have "\<not> (\<exists>s \<in> set (series_of example_utils right_line_chart). s_axis s = YLeft)"
    by (simp add: series_of_def example_utils_fields sortSeries_spec_def chart_example_simps
        s_axis_hydrate)
  ultimately show ?thesis
    by (simp add: yScales_of_def yDomains_of_def example_utils_fields createYScales_spec_def
        calculateYDomains_spec_def example_goals)
qed

subsection \<open>The claims\<close>

text \<open>
  C8, as stated, at a format object \<open>{compact: true}\<close> the only object of the store, with
  the key \<open>compact\<close> and the value \<open>true\<close>, the library freezing as it does by default:
  \<open>maybeAssoc\<close> returns the address of the original, no object is added to the store, so
  that the result is the original and no copy of it, and the original, which was not
  frozen, is frozen afterwards.
\<close>

theorem maybeAssoc_returns_the_original:
  "maybeAssoc False [\<lparr> properties = [''compact'' \<mapsto> JBool True], isFrozen = False \<rparr>]
     (Defined 0) ''compact'' (PBool True) =
   (Defined 0, [\<lparr> properties = [''compact'' \<mapsto> JBool True], isFrozen = True \<rparr>])"
  by (simp add: maybeAssoc_def assoc_def getIn_def getOwn_def freeze_def)

text \<open>
  C8, amended. \<open>maybeAssoc(collection, key, value)\<close> returns the collection as it is when
  the collection is \<open>null\<close> or \<open>undefined\<close>, and the store stays as it is. Otherwise it
  returns an object in which the key is bound to the value and every other key is bound
  as in the original, and no object of the store has its properties changed. When the
  original does not hold the value under the key, the result is a copy: a new object,
  and the store before the call is as it was. When the original holds the value under
  the key already, the result is the original itself; nothing is added to the store, no
  other object changes, and the original is frozen afterwards unless the library runs in
  production mode.
\<close>

theorem maybeAssoc_null_or_bound:
  assumes "c < length h"
  shows "maybeAssoc production h IsNull key v = (IsNull, h) \<and>
         maybeAssoc production h IsUndefined key v = (IsUndefined, h) \<and>
         (\<exists>r h'. maybeAssoc production h (Defined c) key v = (Defined r, h') \<and>
            r < length h' \<and>
            getIn h' r key = of_primitive v \<and>
            (\<forall>k. k \<noteq> key \<longrightarrow> getIn h' r k = getIn h c k) \<and>
            (\<forall>a < length h. properties (h' ! a) = properties (h ! a)) \<and>
            (r = c \<longleftrightarrow> getIn h c key = of_primitive v) \<and>
            (r \<noteq> c \<longrightarrow> r = length h \<and> length h' = Suc (length h) \<and> take (length h) h' = h) \<and>
            (r = c \<longrightarrow>
               length h' = length h \<and>
               (\<forall>a. a \<noteq> c \<longrightarrow> h' ! a = h ! a) \<and>
               (isFrozen (h' ! c) \<longleftrightarrow> \<not> production \<or> isFrozen (h ! c))))"
proof (intro conjI)
  show "maybeAssoc production h IsNull key v = (IsNull, h)"
    by (rule maybeAssoc_null)
  show "maybeAssoc production h IsUndefined key v = (IsUndefined, h)"
    by (rule maybeAssoc_null)
  show "\<exists>r h'. maybeAssoc production h (Defined c) key v = (Defined r, h') \<and>
            r < length h' \<and>
            getIn h' r key = of_primitive v \<and>
            (\<forall>k. k \<noteq> key \<longrightarrow> getIn h' r k = getIn h c k) \<and>
            (\<forall>a < length h. properties (h' ! a) = properties (h ! a)) \<and>
            (r = c \<longleftrightarrow> getIn h c key = of_primitive v) \<and>
            (r \<noteq> c \<longrightarrow> r = length h \<and> length h' = Suc (length h) \<and> take (length h) h' = h) \<and>
            (r = c \<longrightarrow>
               length h' = length h \<and>
               (\<forall>a. a \<noteq> c \<longrightarrow> h' ! a = h ! a) \<and>
               (isFrozen (h' ! c) \<longleftrightarrow> \<not> production \<or> isFrozen (h ! c)))"
  proof (cases "getIn h c key = of_primitive v")
    case True
    have p: "\<forall>a < length h. properties (freeze production h c ! a) = properties (h ! a)"
      by (simp add: properties_freeze)
    have g: "\<And>k. getIn (freeze production h c) c k = getIn h c k"
      using assms by (simp add: getIn_def properties_freeze)
    show ?thesis
      using assms True p
      by (intro exI [of _ c] exI [of _ "freeze production h c"])
         (simp add: maybeAssoc_same g freeze_other isFrozen_freeze)
  next
    case False
    let ?n = "\<lparr> properties = (properties (h ! c))(key \<mapsto> of_primitive v),
                isFrozen = \<not> production \<rparr>"
    have ne: "length h \<noteq> c" using assms by simp
    show ?thesis
      using False ne
      by (intro exI [of _ "length h"] exI [of _ "h @ [?n]"])
         (simp add: maybeAssoc_copy getIn_def getOwn_def nth_append)
  qed
qed

theorem maybeAssoc_null_or_bound_witness:
  "(let h = [\<lparr> properties = [''compact'' \<mapsto> JBool False, ''decimals'' \<mapsto> JNum 2],
               isFrozen = False \<rparr>];
        r = maybeAssoc False h (Defined 0) ''compact'' (PBool True)
    in fst r = Defined 1 \<and> length (snd r) = 2 \<and>
       getIn (snd r) 1 ''compact'' = JBool True \<and>
       getIn (snd r) 1 ''decimals'' = JNum 2 \<and>
       getIn (snd r) 0 ''compact'' = JBool False \<and>
       snd r ! 0 = h ! 0) \<and>
   maybeAssoc False [] IsUndefined ''compact'' (PBool True) = (IsUndefined, [])"
proof -
  let ?h = "[\<lparr> properties = [''compact'' \<mapsto> JBool False, ''decimals'' \<mapsto> JNum 2],
               isFrozen = False \<rparr>]"
  have c: "(0::nat) < length ?h" by simp
  have d: "getIn ?h 0 ''compact'' \<noteq> of_primitive (PBool True)"
    by (simp add: getIn_def getOwn_def)
  from maybeAssoc_null_or_bound [OF c, of False "''compact''" "PBool True"]
  obtain r h' where m: "maybeAssoc False ?h (Defined 0) ''compact'' (PBool True) = (Defined r, h')"
    and b: "getIn h' r ''compact'' = of_primitive (PBool True)"
    and o: "\<forall>k. k \<noteq> ''compact'' \<longrightarrow> getIn h' r k = getIn ?h 0 k"
    and i: "r = 0 \<longleftrightarrow> getIn ?h 0 ''compact'' = of_primitive (PBool True)"
    and n: "r \<noteq> 0 \<longrightarrow> r = length ?h \<and> length h' = Suc (length ?h) \<and> take (length ?h) h' = ?h"
    and u: "maybeAssoc False ?h IsUndefined ''compact'' (PBool True) = (IsUndefined, ?h)"
    by blast
  from i d have r0: "r \<noteq> 0" by simp
  with n have r: "r = 1" and l: "length h' = 2" and t: "take 1 h' = ?h" by simp_all
  from o have dec: "getIn h' r ''decimals'' = JNum 2"
    by (simp add: getIn_def getOwn_def)
  from t have "take 1 h' ! 0 = ?h ! 0" by simp
  then have z: "h' ! 0 = ?h ! 0" by simp
  then have old: "getIn h' 0 ''compact'' = JBool False"
    by (simp add: getIn_def getOwn_def)
  show ?thesis
    using b dec old z l by (simp add: m r Let_def maybeAssoc_null)
qed



text \<open>
  C7. Without a goal in the settings \<open>XYChart\<close> returns a scene, and that scene has no goal
  line: the missing goal is skipped and is no error. In every scene that \<open>XYChart\<close>
  returns, the goal line is there exactly when the settings have a goal, and it is then
  horizontal at the position of the goal value on the default Y scale, spans x from 0 to
  the inner width and carries the label of the goal. With a goal the scene is returned
  whenever a Y scale exists; with the helpers of the specification that is so for every
  chart that has a series.
\<close>

theorem goal_line_iff_goal:
  "(goal (p_settings p) = None \<longrightarrow>
      (\<exists>sc. XYChart U p = Inr sc \<and> g_goalLine (svg_group sc) = None)) \<and>
   (\<forall>sc. XYChart U p = Inr sc \<longrightarrow>
      (g_goalLine (svg_group sc) \<noteq> None \<longleftrightarrow> goal (p_settings p) \<noteq> None) \<and>
      (\<forall>g. goal (p_settings p) = Some g \<longrightarrow>
         (\<exists>d. defaultYScale_of U p = Some d \<and>
              g_goalLine (svg_group sc) =
                Some \<lparr> gl_label = goal_label g, gl_x1 = 0,
                       gl_x2 = innerWidth (bounds_of U p),
                       gl_y = d (goal_value g), gl_color = goalColor (p_style p) \<rparr>))) \<and>
   (defaultYScale_of U p \<noteq> None \<longrightarrow> (\<exists>sc. XYChart U p = Inr sc)) \<and>
   (sortSeries U = sortSeries_spec \<and> calculateStackedItems U = calculateStackedItems_spec \<and>
    calculateYDomains U = calculateYDomains_spec \<and> createYScales U = createYScales_spec \<and>
    p_series p \<noteq> [] \<longrightarrow> (\<exists>sc. XYChart U p = Inr sc))"
proof (intro conjI allI impI)
  assume "goal (p_settings p) = None"
  then show "\<exists>sc. XYChart U p = Inr sc \<and> g_goalLine (svg_group sc) = None"
    by (auto simp: XYChart_def goalLine_of_def)
next
  fix sc assume sc: "XYChart U p = Inr sc"
  from XYChart_scene(5) [OF sc, symmetric]
  show "g_goalLine (svg_group sc) \<noteq> None \<longleftrightarrow> goal (p_settings p) \<noteq> None"
    by (auto simp: goalLine_of_def split: option.splits)
  fix g assume g: "goal (p_settings p) = Some g"
  from XYChart_scene(5) [OF sc, symmetric] g
  show "\<exists>d. defaultYScale_of U p = Some d \<and>
          g_goalLine (svg_group sc) =
            Some \<lparr> gl_label = goal_label g, gl_x1 = 0, gl_x2 = innerWidth (bounds_of U p),
                   gl_y = d (goal_value g), gl_color = goalColor (p_style p) \<rparr>"
    by (auto simp: goalLine_of_def split: option.splits)
next
  assume "defaultYScale_of U p \<noteq> None"
  then show "\<exists>sc. XYChart U p = Inr sc" by (simp add: XYChart_returns_iff)
next
  assume h: "sortSeries U = sortSeries_spec \<and>
    calculateStackedItems U = calculateStackedItems_spec \<and>
    calculateYDomains U = calculateYDomains_spec \<and> createYScales U = createYScales_spec \<and>
    p_series p \<noteq> []"
  then have "defaultYScale_of U p \<noteq> None"
    using spec_default_scale_present [of U p] by blast
  then show "\<exists>sc. XYChart U p = Inr sc" by (simp add: XYChart_returns_iff)
qed

theorem goal_line_iff_goal_witness:
  "map_sum id (\<lambda>sc. g_goalLine (svg_group sc)) (XYChart example_utils ordinal_bar_chart) =
     Inr None \<and>
   map_sum id (\<lambda>sc. map_option (\<lambda>gl. (gl_label gl, gl_x1 gl, gl_x2 gl, gl_color gl))
                       (g_goalLine (svg_group sc)))
     (XYChart example_utils goal_bar_chart) =
     Inr (Some (''Target'', 0, innerWidth (bounds_of example_utils goal_bar_chart),
                ''#4C5773''))"
proof -
  from goal_line_iff_goal [of ordinal_bar_chart example_utils] example_goals(2)
  obtain sc1 where sc1: "XYChart example_utils ordinal_bar_chart = Inr sc1"
    and n1: "g_goalLine (svg_group sc1) = None"
    by blast
  have ne: "p_series goal_bar_chart \<noteq> []"
    by (simp add: chart_example_simps)
  note T = goal_line_iff_goal [of goal_bar_chart example_utils]
  from T example_utils_fields(1-4) ne
  obtain sc2 where sc2: "XYChart example_utils goal_bar_chart = Inr sc2"
    by blast
  from T sc2 example_goals(6)
  obtain d where g2: "g_goalLine (svg_group sc2) =
      Some \<lparr> gl_label = goal_label example_goal, gl_x1 = 0,
             gl_x2 = innerWidth (bounds_of example_utils goal_bar_chart),
             gl_y = d (goal_value example_goal),
             gl_color = goalColor (p_style goal_bar_chart) \<rparr>"
    by blast
  have gc: "goalColor (p_style goal_bar_chart) = ''#4C5773''"
    by (simp add: chart_example_simps)
  show ?thesis
    using n1 g2 by (simp add: sc1 sc2 example_goal_def gc)
qed

text \<open>
  C1, as stated, at the chart without any series (and without a goal): \<open>XYChart\<close> raises
  nothing and returns a scene, 400 wide, whose line group is empty and which has no goal
  line.
\<close>

theorem empty_chart_is_rendered:
  "p_series empty_chart = [] \<and>
   map_sum id (\<lambda>sc. (svg_width sc, sp_series (g_lineSeries (svg_group sc)),
                      g_goalLine (svg_group sc)))
     (XYChart example_utils empty_chart) = Inr (400, [], None)"
  by (simp add: XYChart_def goalLine_of_def lineSeries_of_def lines_of_def example_series_of
      example_goals)
     (simp add: chart_example_simps)

text \<open>
  C1, amended. For a zero-length series list and no goal, \<open>XYChart\<close> raises no error once
  its helpers have returned: it returns a complete scene. When the normaliser returns
  no series for no series (the sorting step, and the stacking step when stacking is on),
  that scene is an empty chart: its line, area and bar groups hold no series, and
  compact notation is off.
\<close>

theorem empty_series_renders:
  assumes "p_series p = []" and "goal (p_settings p) = None"
  shows "\<exists>sc. XYChart U p = Inr sc \<and>
           (sortSeries U [] (x_type (settings_x (p_settings p))) = [] \<and>
            (stacking (p_settings p) = StackingStack \<longrightarrow> calculateStackedItems U [] = [])
            \<longrightarrow>
              sp_series (g_lineSeries (svg_group sc)) = [] \<and>
              sp_series (g_areaSeries (svg_group sc)) = [] \<and>
              (\<forall>b. g_barSeries (svg_group sc) = Some b \<longrightarrow> sp_series b = []) \<and>
              \<not> compact_of U p)"
proof -
  from assms(2) have "\<exists>sc. XYChart U p = Inr sc"
    by (simp add: XYChart_returns_iff)
  then obtain sc where sc: "XYChart U p = Inr sc" by blast
  have "sp_series (g_lineSeries (svg_group sc)) = [] \<and>
      sp_series (g_areaSeries (svg_group sc)) = [] \<and>
      (\<forall>b. g_barSeries (svg_group sc) = Some b \<longrightarrow> sp_series b = []) \<and>
      \<not> compact_of U p"
    if a: "sortSeries U [] (x_type (settings_x (p_settings p))) = [] \<and>
      (stacking (p_settings p) = StackingStack \<longrightarrow> calculateStackedItems U [] = [])"
  proof (intro conjI allI impI)
    from a assms(1) have e: "series_of U p = []" by (simp add: series_of_def)
    from e show "sp_series (g_lineSeries (svg_group sc)) = []"
      by (simp add: XYChart_scene(4) [OF sc] lineSeries_of_def lines_of_def)
    from e show "sp_series (g_areaSeries (svg_group sc)) = []"
      by (simp add: XYChart_scene(3) [OF sc] areaSeries_of_def areas_of_def)
    from e show "\<not> compact_of U p" by (simp add: compact_of_def getAvgLength_no_points)
    fix b assume "g_barSeries (svg_group sc) = Some b"
    with e show "sp_series b = []"
      by (auto simp: XYChart_scene(2) [OF sc] barSeries_of_def bars_of_def
               split: option.splits if_splits)
  qed
  with sc show ?thesis by blast
qed

theorem empty_series_renders_witness:
  "\<not> compact_of example_utils empty_chart \<and>
   map_sum id (\<lambda>sc. sp_series (g_areaSeries (svg_group sc)))
     (XYChart example_utils empty_chart) = Inr []"
proof -
  have e: "p_series empty_chart = []" by (simp add: chart_example_simps)
  have h: "sortSeries example_utils [] (x_type (settings_x (p_settings empty_chart))) = [] \<and>
      (stacking (p_settings empty_chart) = StackingStack \<longrightarrow>
         calculateStackedItems example_utils [] = [])"
    by (simp add: example_utils_fields sortSeries_spec_def calculateStackedItems_spec_def)
  from empty_series_renders [OF e example_goals(1), of example_utils] h
  obtain sc where sc: "XYChart example_utils empty_chart = Inr sc"
    and a: "sp_series (g_areaSeries (svg_group sc)) = []"
    and c: "\<not> compact_of example_utils empty_chart"
    by blast
  show ?thesis using c a by (simp add: sc)
qed

text \<open>
  C6. With the domain calculator and the scale factory of the specification: when all
  the series of the input are assigned to the left side, the Y scale of the right side
  is absent (there is no scale at all, not a degenerate one) and no scene that \<open>XYChart\<close>
  returns has a right axis; likewise with the sides exchanged.
\<close>

theorem unused_side_has_no_scale:
  assumes "sortSeries U = sortSeries_spec"
    and "calculateStackedItems U = calculateStackedItems_spec"
    and "calculateYDomains U = calculateYDomains_spec"
    and "createYScales U = createYScales_spec"
  shows "((\<forall>s \<in> set (p_series p). s_axis s = YLeft) \<longrightarrow>
            yScaleRight (yScales_of U p) = None \<and>
            (\<forall>sc. XYChart U p = Inr sc \<longrightarrow> svg_axisRight sc = None)) \<and>
         ((\<forall>s \<in> set (p_series p). s_axis s = YRight) \<longrightarrow>
            yScaleLeft (yScales_of U p) = None \<and>
            (\<forall>sc. XYChart U p = Inr sc \<longrightarrow> svg_axisLeft sc = None))"
proof (intro conjI allI impI)
  assume l: "\<forall>s \<in> set (p_series p). s_axis s = YLeft"
  show r: "yScaleRight (yScales_of U p) = None"
    using spec_scale_absent(1) [OF assms l] .
  fix sc assume sc: "XYChart U p = Inr sc"
  from r show "svg_axisRight sc = None"
    by (simp add: XYChart_scene(7) [OF sc] axisRight_of_def)
next
  assume l: "\<forall>s \<in> set (p_series p). s_axis s = YRight"
  show r: "yScaleLeft (yScales_of U p) = None"
    using spec_scale_absent(2) [OF assms l] .
  fix sc assume sc: "XYChart U p = Inr sc"
  from r show "svg_axisLeft sc = None"
    by (simp add: XYChart_scene(6) [OF sc] axisLeft_of_def)
qed

theorem unused_side_has_no_scale_witness:
  "yScaleRight (yScales_of example_utils ordinal_bar_chart) = None \<and>
   map_sum id svg_axisRight (XYChart example_utils ordinal_bar_chart) = Inr None \<and>
   yScaleLeft (yScales_of example_utils right_line_chart) = None \<and>
   yScaleRight (yScales_of example_utils right_line_chart) \<noteq> None \<and>
   map_sum id svg_axisLeft (XYChart example_utils right_line_chart) = Inr None"
proof -
  note T1 = unused_side_has_no_scale [OF example_utils_fields(1-4), of ordinal_bar_chart]
  note T2 = unused_side_has_no_scale [OF example_utils_fields(1-4), of right_line_chart]
  obtain sc1 where sc1: "XYChart example_utils ordinal_bar_chart = Inr sc1"
    using XYChart_returns_iff [of example_utils ordinal_bar_chart] example_goals(2) by auto
  obtain sc2 where sc2: "XYChart example_utils right_line_chart = Inr sc2"
    using XYChart_returns_iff [of example_utils right_line_chart] example_goals(4) by auto
  from T1 example_axes(1) sc1
  have a: "yScaleRight (yScales_of example_utils ordinal_bar_chart) = None \<and>
      svg_axisRight sc1 = None" by blast
  from T2 example_axes(2) sc2
  have b: "yScaleLeft (yScales_of example_utils right_line_chart) = None \<and>
      svg_axisLeft sc2 = None" by blast
  show ?thesis using a b right_line_chart_right by (simp add: sc1 sc2)
qed
subsection \<open>Stacking\<close>












subsection \<open>Compact notation\<close>





















end
